theory Spec2Isabelle
  imports Complex_Main
begin

section \<open>Numbers, arrays and errors\<close>

text \<open>
  The model is written in Python on numpy and scipy. A Python or numpy float is one of a
  real number, the two infinities and NaN. Rounding, overflow and the sign of zero are
  left out: a finite float is the real number it stands for. What the source does at the
  special values is kept, since several of its branches return \<open>-np.inf\<close> and one
  divides by a candidate that may be zero.
\<close>

datatype fl = NaN | NInf | Fin real | PInf

fun is_finite :: "fl \<Rightarrow> bool" where
  "is_finite (Fin _) = True"
| "is_finite _ = False"

text \<open>Comparison: every comparison with NaN is false.\<close>

fun flt :: "fl \<Rightarrow> fl \<Rightarrow> bool" where
  "flt NaN _ = False"
| "flt _ NaN = False"
| "flt _ NInf = False"
| "flt NInf _ = True"
| "flt PInf _ = False"
| "flt (Fin _) PInf = True"
| "flt (Fin a) (Fin b) = (a < b)"

fun fle :: "fl \<Rightarrow> fl \<Rightarrow> bool" where
  "fle NaN _ = False"
| "fle _ NaN = False"
| "fle NInf _ = True"
| "fle _ PInf = True"
| "fle PInf _ = False"
| "fle (Fin _) NInf = False"
| "fle (Fin a) (Fin b) = (a \<le> b)"

definition fgt :: "fl \<Rightarrow> fl \<Rightarrow> bool" where
  "fgt a b = flt b a"

definition fge :: "fl \<Rightarrow> fl \<Rightarrow> bool" where
  "fge a b = fle b a"

fun fneg :: "fl \<Rightarrow> fl" where
  "fneg NaN = NaN"
| "fneg NInf = PInf"
| "fneg PInf = NInf"
| "fneg (Fin a) = Fin (- a)"

fun fadd :: "fl \<Rightarrow> fl \<Rightarrow> fl" where
  "fadd NaN _ = NaN"
| "fadd _ NaN = NaN"
| "fadd PInf NInf = NaN"
| "fadd NInf PInf = NaN"
| "fadd PInf _ = PInf"
| "fadd _ PInf = PInf"
| "fadd NInf _ = NInf"
| "fadd _ NInf = NInf"
| "fadd (Fin a) (Fin b) = Fin (a + b)"

definition fsub :: "fl \<Rightarrow> fl \<Rightarrow> fl" where
  "fsub a b = fadd a (fneg b)"

text \<open>The sign of a float that is not NaN, and the infinity of a given sign.\<close>

fun fsign :: "fl \<Rightarrow> int" where
  "fsign NaN = 0"
| "fsign NInf = - 1"
| "fsign PInf = 1"
| "fsign (Fin a) = (if a < 0 then - 1 else if a = 0 then 0 else 1)"

definition inf_of_sign :: "int \<Rightarrow> fl" where
  "inf_of_sign s = (if s < 0 then NInf else if s = 0 then NaN else PInf)"

fun fmul :: "fl \<Rightarrow> fl \<Rightarrow> fl" where
  "fmul NaN _ = NaN"
| "fmul _ NaN = NaN"
| "fmul (Fin a) (Fin b) = Fin (a * b)"
| "fmul a b = inf_of_sign (fsign a * fsign b)"

text \<open>
  numpy's division: a division by zero is no error, it gives an infinity (NaN for 0/0)
  and a warning.
\<close>

fun fdiv :: "fl \<Rightarrow> fl \<Rightarrow> fl" where
  "fdiv NaN _ = NaN"
| "fdiv _ NaN = NaN"
| "fdiv (Fin a) (Fin b) = (if b = 0 then inf_of_sign (fsign (Fin a)) else Fin (a / b))"
| "fdiv (Fin a) _ = Fin 0"
| "fdiv a (Fin b) = inf_of_sign (fsign a * (if b < 0 then - 1 else 1))"
| "fdiv _ _ = NaN"

datatype error =
  ValueError | IndexError | ZeroDivisionError | AttributeError | LinAlgError | OtherError nat

text \<open>Python's division of two Python floats raises on a zero divisor.\<close>

definition py_div :: "fl \<Rightarrow> fl \<Rightarrow> error + fl" where
  "py_div a b = (if b = Fin 0 then Inl ZeroDivisionError else Inr (fdiv a b))"

text \<open>
  A one-dimensional numpy array is an object: it has an identity, a buffer of bytes
  (what \<open>arr.data.tobytes()\<close> returns) and the values that the buffer holds. The
  values do not determine the bytes: floats being idealised, 0.0 and -0.0 are one value
  with two byte patterns, and an array of another dtype holds the same values in other
  bytes. The source never looks at the identity; it is kept so that the cache key can be
  shown not to depend on it.
\<close>

datatype ndarray = NdArray (ident: nat) (raw: "nat list") (data: "fl list")

type_synonym matrix = "fl list list"

definition shape :: "matrix \<Rightarrow> nat \<times> nat" where
  "shape A = (length A, (case A of [] \<Rightarrow> 0 | r # _ \<Rightarrow> length r))"

definition np_eye :: "nat \<Rightarrow> matrix" where
  "np_eye n = map (\<lambda>i. map (\<lambda>j. if i = j then Fin 1 else Fin 0) [0..<n]) [0..<n]"

definition np_ones :: "nat \<Rightarrow> nat \<Rightarrow> matrix" where
  "np_ones n k = replicate n (replicate k (Fin 1))"

definition scalar_mul :: "fl \<Rightarrow> matrix \<Rightarrow> matrix" where
  "scalar_mul c A = map (map (fmul c)) A"

definition scalar_div :: "matrix \<Rightarrow> fl \<Rightarrow> matrix" where
  "scalar_div A c = map (map (\<lambda>a. fdiv a c)) A"

text \<open>
  The sum of two matrices. The source only adds matrices of one shape (P x P or N x N);
  numpy's stretching of a dimension of size one is not modelled, other shapes raise.
\<close>

definition np_add :: "matrix \<Rightarrow> matrix \<Rightarrow> error + matrix" where
  "np_add A B =
     (if map length A = map length B then Inr (map2 (map2 fadd) A B) else Inl ValueError)"

definition fsum :: "fl list \<Rightarrow> fl" where
  "fsum xs = foldl fadd (Fin 0) xs"

definition dot_rows :: "fl list \<Rightarrow> fl list \<Rightarrow> fl" where
  "dot_rows r s = fsum (map2 fmul r s)"

text \<open>\<open>np.dot(X, X.T)\<close>: entry (i, j) is the product of rows i and j of X.\<close>

definition dot_transpose :: "matrix \<Rightarrow> matrix" where
  "dot_transpose A = map (\<lambda>r. map (\<lambda>s. dot_rows r s) A) A"

text \<open>
  \<open>X[:, mask]\<close>: the columns of X at which the boolean mask is set; numpy raises
  IndexError when the mask is not as long as X has columns.
\<close>

definition select :: "bool list \<Rightarrow> 'a list \<Rightarrow> 'a list" where
  "select msk row = map snd (filter fst (zip msk row))"

definition mask_columns :: "nat \<Rightarrow> matrix \<Rightarrow> bool list \<Rightarrow> error + matrix" where
  "mask_columns ncols A msk =
     (if length msk = ncols then Inr (map (select msk) A) else Inl IndexError)"

section \<open>The libraries the model stands on\<close>

subsection \<open>scipy's frozen distributions\<close>

text \<open>
  \<open>norm(loc, scale)\<close>, \<open>gamma(a, scale)\<close> and \<open>beta(a, b)\<close>. For scipy the scale of
  a normal distribution is its standard deviation. A frozen distribution with invalid
  parameters raises nothing: its moments are NaN.
\<close>

datatype dist = NormDist fl fl | GammaDist fl fl | BetaDist fl fl

text \<open>The location and scale of a frozen distribution, and scipy's check of its shape.\<close>

fun dist_loc :: "dist \<Rightarrow> fl" where
  "dist_loc (NormDist loc scale) = loc"
| "dist_loc _ = Fin 0"

fun dist_scale :: "dist \<Rightarrow> fl" where
  "dist_scale (NormDist loc scale) = scale"
| "dist_scale (GammaDist a scale) = scale"
| "dist_scale (BetaDist a b) = Fin 1"

fun argcheck :: "dist \<Rightarrow> bool" where
  "argcheck (NormDist loc scale) = True"
| "argcheck (GammaDist a scale) = flt (Fin 0) a"
| "argcheck (BetaDist a b) = (flt (Fin 0) a \<and> flt (Fin 0) b)"

definition dist_valid :: "dist \<Rightarrow> bool" where
  "dist_valid d = (argcheck d \<and> flt (Fin 0) (dist_scale d) \<and> dist_loc d \<noteq> NaN)"

text \<open>Mean and variance of the standard member (location 0, scale 1) of each family.\<close>

fun std_mean :: "dist \<Rightarrow> fl" where
  "std_mean (NormDist loc scale) = Fin 0"
| "std_mean (GammaDist a scale) = a"
| "std_mean (BetaDist a b) = fdiv a (fadd a b)"

fun std_var :: "dist \<Rightarrow> fl" where
  "std_var (NormDist loc scale) = Fin 1"
| "std_var (GammaDist a scale) = a"
| "std_var (BetaDist a b) =
     fdiv (fmul a b) (fmul (fmul (fadd a b) (fadd a b)) (fadd (fadd a b) (Fin 1)))"

definition dist_mean :: "dist \<Rightarrow> fl" where
  "dist_mean d =
     (if dist_valid d then fadd (fmul (std_mean d) (dist_scale d)) (dist_loc d) else NaN)"

definition dist_var :: "dist \<Rightarrow> fl" where
  "dist_var d =
     (if dist_valid d then fmul (std_var d) (fmul (dist_scale d) (dist_scale d)) else NaN)"

subsection \<open>cachetools' Cache\<close>

text \<open>
  \<open>cachetools.Cache\<close> is the base class of the package: a dictionary with a bound on
  its size, every entry counting for one. Reading an entry leaves the dictionary as it
  is. Writing under a new key into a full cache first calls \<open>popitem\<close>, which the base
  class inherits from \<open>MutableMapping\<close>: it removes the first key of the dictionary's
  iteration order, the insertion order of a Python dictionary. The entries are therefore
  an association list, oldest insertion first.
\<close>

record 'v Cache =
  maxsize :: nat
  items :: "(int \<times> 'v) list"

definition Cache_new :: "nat \<Rightarrow> 'v Cache" where
  "Cache_new n = \<lparr>maxsize = n, items = []\<rparr>"

definition Cache_getitem :: "'v Cache \<Rightarrow> int \<Rightarrow> 'v option" where
  "Cache_getitem c k = map_of (items c) k"

text \<open>\<open>while self.currsize + size > maxsize: self.popitem()\<close>, with size 1.\<close>

fun popitems :: "nat \<Rightarrow> (int \<times> 'v) list \<Rightarrow> (int \<times> 'v) list" where
  "popitems n [] = []"
| "popitems n (x # xs) = (if length (x # xs) + 1 > n then popitems n xs else x # xs)"

text \<open>A dictionary assignment: in place under a key that is there, at the end otherwise.\<close>

fun dict_set :: "int \<Rightarrow> 'v \<Rightarrow> (int \<times> 'v) list \<Rightarrow> (int \<times> 'v) list" where
  "dict_set k v [] = [(k, v)]"
| "dict_set k v (x # xs) = (if fst x = k then (k, v) # xs else x # dict_set k v xs)"

definition Cache_setitem :: "'v Cache \<Rightarrow> int \<Rightarrow> 'v \<Rightarrow> error + 'v Cache" where
  "Cache_setitem c k v =
     (if 1 > maxsize c then Inl ValueError
      else
        let kept = (if map_of (items c) k = None then popitems (maxsize c) (items c)
                    else items c)
        in Inr (c\<lparr>items := dict_set k v kept\<rparr>))"

subsection \<open>Python's hash\<close>

text \<open>
  The hash of an integer is its residue modulo \<open>2^61 - 1\<close> with the sign kept, and -2
  in place of -1; a float with an integral value hashes as that integer. Every integer of
  magnitude at most \<open>2^53\<close> is a float, and the rule is applied to these. The hash of
  the other floats, of a byte string and of a tuple (a function of the hashes of its
  elements) are parameters.
\<close>

definition py_hash_int :: "int \<Rightarrow> int" where
  "py_hash_int n =
     (let h = sgn n * (\<bar>n\<bar> mod (2 ^ 61 - 1)) in if h = - 1 then - 2 else h)"

record hashing =
  hash_float_other :: "fl \<Rightarrow> int"
  hash_bytes :: "nat list \<Rightarrow> int"
  hash_tuple :: "int list \<Rightarrow> int"

definition py_hash_float :: "hashing \<Rightarrow> fl \<Rightarrow> int" where
  "py_hash_float H x =
     (case x of
        Fin r \<Rightarrow>
          if of_int \<lfloor>r\<rfloor> = r \<and> \<bar>r\<bar> \<le> 2 ^ 53 then py_hash_int \<lfloor>r\<rfloor>
          else hash_float_other H x
      | _ \<Rightarrow> hash_float_other H x)"

subsection \<open>The classes of the package that the model calls\<close>

text \<open>
  The two samplers are generic: all they know of the target is the log-density function
  they are given, and they draw from numpy's random state. A run of \<open>one(x0)\<close> is
  therefore a tree: it returns a value, raises, evaluates the function at a point and
  goes on with the value it gets, or steps the random state and goes on with what it
  drew. An exception of the function leaves the sampler as it is raised.
\<close>

datatype ('x, 'r) prog =
    Done 'x
  | Fail error
  | Query 'x "fl \<Rightarrow> ('x, 'r) prog"
  | Rand "'r \<Rightarrow> 'r" "'r \<Rightarrow> ('x, 'r) prog"

text \<open>
  \<open>Mvn\<close>, the samplers, scipy's quantile and log-density functions and numpy's gamma
  variate are parameters of the model. \<open>Mvn_new cov min_eigenval jitter\<close> is the
  constructor, \<open>None\<close> standing for an argument left to its default.
\<close>

record ('mvn, 'r) env =
  Mvn_new :: "matrix \<Rightarrow> fl option \<Rightarrow> fl option \<Rightarrow> error + 'mvn"
  Mvn_cov :: "'mvn \<Rightarrow> matrix"
  Mvn_logpdf :: "'mvn \<Rightarrow> ndarray \<Rightarrow> fl \<Rightarrow> error + fl"
  Mvn_maha :: "'mvn \<Rightarrow> ndarray \<Rightarrow> error + fl"
  Mvn_whiten :: "'mvn \<Rightarrow> ndarray \<Rightarrow> error + ndarray"
  Mvn_correlate :: "'mvn \<Rightarrow> ndarray \<Rightarrow> error + ndarray"
  Mvn_rvs :: "'mvn \<Rightarrow> 'r \<Rightarrow> (error + ndarray) \<times> 'r"
  SliceSampler_one :: "fl \<Rightarrow> (fl, 'r) prog"
  EllipticalSliceSampler_one :: "'mvn \<Rightarrow> ndarray \<Rightarrow> (ndarray, 'r) prog"
  norm_ppf :: "fl \<Rightarrow> fl"
  logpdf :: "dist \<Rightarrow> fl \<Rightarrow> fl"
  random_gamma :: "fl \<Rightarrow> fl \<Rightarrow> 'r \<Rightarrow> (error + fl) \<times> 'r"
  hashes :: hashing

section \<open>The Probit model\<close>

text \<open>
  The object's attributes, \<open>self.X\<close> as \<open>self_X\<close>, and numpy's global random
  state, which the object draws from.
\<close>

record ('mvn, 'r) probit =
  self_X :: matrix
  self_Y :: ndarray
  self_R :: 'mvn
  self_N :: nat
  self_P :: nat
  self_nu_a :: fl
  self_nu_b :: fl
  self_check_finite :: bool
  self_sample_xi :: bool
  self_xi_distribution :: "dist option"
  self_xi :: fl
  self_gamma0_distribution :: dist
  self_gamma0 :: fl
  self_lambda_distribution :: dist
  self_lamb :: fl
  self_nu_distribution :: dist
  self_nu :: fl
  self_probit_cache :: "'mvn Cache"
  self_ppi_cache :: "'mvn Cache"
  self_gamma :: ndarray
  np_random :: 'r

text \<open>A method takes the object and returns a value or an exception, and the object.\<close>

type_synonym ('a, 'w) action = "'w \<Rightarrow> (error + 'a) \<times> 'w"

definition and_then :: "('a, 'w) action \<Rightarrow> ('a \<Rightarrow> ('b, 'w) action) \<Rightarrow> ('b, 'w) action" where
  "and_then act f w = (case act w of (Inl e, w') \<Rightarrow> (Inl e, w') | (Inr a, w') \<Rightarrow> f a w')"

definition from_result :: "error + 'a \<Rightarrow> ('a, 'w) action" where
  "from_result r w = (r, w)"

primrec run_prog ::
  "('x \<Rightarrow> (fl, ('mvn, 'r) probit) action) \<Rightarrow> ('x, 'r) prog \<Rightarrow> ('x, ('mvn, 'r) probit) action"
where
  "run_prog f (Done x) = (\<lambda>m. (Inr x, m))"
| "run_prog f (Fail e) = (\<lambda>m. (Inl e, m))"
| "run_prog f (Query x k) =
     (\<lambda>m. case f x m of (Inl e, m') \<Rightarrow> (Inl e, m') | (Inr v, m') \<Rightarrow> run_prog f (k v) m')"
| "run_prog f (Rand step k) =
     (\<lambda>m. run_prog f (k (np_random m)) (m\<lparr>np_random := step (np_random m)\<rparr>))"

subsection \<open>The two caches\<close>

text \<open>
  \<open>_cache_key(self, *args)\<close>: the hash of the tuple of the arguments, an array being
  replaced by the hash of its bytes.
\<close>

datatype arg = ArgFloat fl | ArgArray ndarray

fun key_part :: "hashing \<Rightarrow> arg \<Rightarrow> int" where
  "key_part H (ArgArray a) = py_hash_int (hash_bytes H (raw a))"
| "key_part H (ArgFloat x) = py_hash_float H x"

definition cache_key :: "hashing \<Rightarrow> arg list \<Rightarrow> int" where
  "cache_key H args = hash_tuple H (map (key_part H) args)"

text \<open>
  \<open>cachedmethod\<close>: the entry under the key when there is one; otherwise the method
  runs, and its result is stored unless the cache refuses it. An exception of the method
  stores nothing.
\<close>

definition cachedmethod ::
  "('w \<Rightarrow> 'v Cache) \<Rightarrow> ('v Cache \<Rightarrow> 'w \<Rightarrow> 'w) \<Rightarrow> int \<Rightarrow> ('w \<Rightarrow> error + 'v) \<Rightarrow> ('v, 'w) action"
where
  "cachedmethod cache put k method m =
     (case Cache_getitem (cache m) k of
        Some v \<Rightarrow> (Inr v, m)
      | None \<Rightarrow>
          (case method m of
             Inl e \<Rightarrow> (Inl e, m)
           | Inr v \<Rightarrow>
               (case Cache_setitem (cache m) k v of
                  Inl _ \<Rightarrow> (Inr v, m)
                | Inr c \<Rightarrow> (Inr v, put c m))))"

definition probit_cov :: "('mvn, 'r) env \<Rightarrow> ('mvn, 'r) probit \<Rightarrow> fl \<Rightarrow> error + matrix" where
  "probit_cov E m xi =
     np_add (scalar_mul xi (Mvn_cov E (self_R m)))
            (scalar_mul (fsub (Fin 1) xi) (np_eye (self_P m)))"

definition new_probit_distribution ::
  "('mvn, 'r) env \<Rightarrow> fl \<Rightarrow> ('mvn, 'r) probit \<Rightarrow> error + 'mvn"
where
  "new_probit_distribution E xi m =
     (case probit_cov E m xi of Inl e \<Rightarrow> Inl e | Inr c \<Rightarrow> Mvn_new E c None None)"

definition probit_distribution ::
  "('mvn, 'r) env \<Rightarrow> fl \<Rightarrow> ('mvn, ('mvn, 'r) probit) action"
where
  "probit_distribution E xi =
     cachedmethod self_probit_cache (\<lambda>c m. m\<lparr>self_probit_cache := c\<rparr>)
       (cache_key (hashes E) [ArgFloat xi]) (new_probit_distribution E xi)"

text \<open>
  The covariance of the PPI distribution:
  \<open>X = self.X[:, gamma > gamma0]\<close>, then
  \<open>(np.dot(X, X.T) + np.ones((N, N))) / lamb + np.eye(N)\<close>.
\<close>

definition ppi_cov ::
  "('mvn, 'r) probit \<Rightarrow> ndarray \<Rightarrow> fl \<Rightarrow> fl \<Rightarrow> error + matrix"
where
  "ppi_cov m gam gam0 lam =
     (case mask_columns (snd (shape (self_X m))) (self_X m) (map (\<lambda>g. fgt g gam0) (data gam)) of
        Inl e \<Rightarrow> Inl e
      | Inr Xm \<Rightarrow>
          (case np_add (dot_transpose Xm) (np_ones (self_N m) (self_N m)) of
             Inl e \<Rightarrow> Inl e
           | Inr A \<Rightarrow> np_add (scalar_div A lam) (np_eye (self_N m))))"

definition new_ppi_distribution ::
  "('mvn, 'r) env \<Rightarrow> ndarray \<Rightarrow> fl \<Rightarrow> fl \<Rightarrow> ('mvn, 'r) probit \<Rightarrow> error + 'mvn"
where
  "new_ppi_distribution E gam gam0 lam m =
     (case ppi_cov m gam gam0 lam of Inl e \<Rightarrow> Inl e | Inr c \<Rightarrow> Mvn_new E c None None)"

definition ppi_distribution ::
  "('mvn, 'r) env \<Rightarrow> ndarray \<Rightarrow> fl \<Rightarrow> fl \<Rightarrow> ('mvn, ('mvn, 'r) probit) action"
where
  "ppi_distribution E gam gam0 lam =
     cachedmethod self_ppi_cache (\<lambda>c m. m\<lparr>self_ppi_cache := c\<rparr>)
       (cache_key (hashes E) [ArgArray gam, ArgFloat gam0, ArgFloat lam])
       (new_ppi_distribution E gam gam0 lam)"

subsection \<open>Log-densities\<close>

definition log_marg_like ::
  "('mvn, 'r) env \<Rightarrow> ndarray \<Rightarrow> fl \<Rightarrow> fl \<Rightarrow> fl \<Rightarrow> (fl, ('mvn, 'r) probit) action"
where
  "log_marg_like E gam gam0 lam nu' =
     and_then (ppi_distribution E gam gam0 lam)
       (\<lambda>d m. (Mvn_logpdf E d (self_Y m) nu', m))"

text \<open>
  \<open>log_joint\<close>: the six terms are evaluated in the order of the list and summed from 0.
  \<open>self._xi_distribution\<close> exists only when xi is sampled.
\<close>

definition xi_logpdf :: "('mvn, 'r) env \<Rightarrow> fl \<Rightarrow> (fl, ('mvn, 'r) probit) action" where
  "xi_logpdf E x m =
     (case self_xi_distribution m of
        None \<Rightarrow> (Inl AttributeError, m)
      | Some d \<Rightarrow> (Inr (logpdf E d x), m))"

definition log_joint :: "('mvn, 'r) env \<Rightarrow> (fl, ('mvn, 'r) probit) action" where
  "log_joint E =
     and_then (\<lambda>m. log_marg_like E (self_gamma m) (self_gamma0 m) (self_lamb m) (self_nu m) m)
       (\<lambda>l1. and_then (\<lambda>m. probit_distribution E (self_xi m) m)
         (\<lambda>d. and_then (\<lambda>m. (Mvn_logpdf E d (self_gamma m) (Fin 1), m))
           (\<lambda>l5. and_then
               (\<lambda>m. if self_sample_xi m then xi_logpdf E (self_xi m) m else (Inr (Fin 0), m))
             (\<lambda>l6 m. (Inr (fsum
                [l1,
                 logpdf E (self_gamma0_distribution m) (self_gamma0 m),
                 logpdf E (self_nu_distribution m) (self_nu m),
                 logpdf E (self_lambda_distribution m) (self_lamb m),
                 l5, l6]), m)))))"

subsection \<open>The parameter updates\<close>

text \<open>
  The log-density handed to a sampler is a closure over \<open>self\<close>: it reads the
  attributes at the time of each call, and its calls go through the caches.
\<close>

definition gamma_log_like :: "('mvn, 'r) env \<Rightarrow> ndarray \<Rightarrow> (fl, ('mvn, 'r) probit) action" where
  "gamma_log_like E gam m = log_marg_like E gam (self_gamma0 m) (self_lamb m) (self_nu m) m"

definition update_gamma :: "('mvn, 'r) env \<Rightarrow> (unit, ('mvn, 'r) probit) action" where
  "update_gamma E =
     and_then (\<lambda>m. probit_distribution E (self_xi m) m)
       (\<lambda>d. and_then
           (\<lambda>m. run_prog (gamma_log_like E) (EllipticalSliceSampler_one E d (self_gamma m)) m)
         (\<lambda>g m. (Inr (), m\<lparr>self_gamma := g\<rparr>)))"

definition update_nu :: "('mvn, 'r) env \<Rightarrow> (unit, ('mvn, 'r) probit) action" where
  "update_nu E =
     and_then (\<lambda>m. ppi_distribution E (self_gamma m) (self_gamma0 m) (self_lamb m) m)
       (\<lambda>ppi. and_then (\<lambda>m. (Mvn_maha E ppi (self_Y m), m))
         (\<lambda>distance_sq m.
            let post_a = fadd (self_nu_a m) (fmul (Fin (1 / 2)) (Fin (real (self_N m))));
                post_b = fadd (self_nu_b m) (fmul (Fin (1 / 2)) distance_sq)
            in case random_gamma E post_a (fdiv (Fin 1) post_b) (np_random m) of
                 (Inl e, r) \<Rightarrow> (Inl e, m\<lparr>np_random := r\<rparr>)
               | (Inr v, r) \<Rightarrow> (Inr (), m\<lparr>self_nu := v, np_random := r\<rparr>)))"

definition lambda_slice_fn :: "('mvn, 'r) env \<Rightarrow> fl \<Rightarrow> (fl, ('mvn, 'r) probit) action" where
  "lambda_slice_fn E lam m =
     (if flt lam (Fin 0) then (Inr NInf, m)
      else and_then (log_marg_like E (self_gamma m) (self_gamma0 m) lam (self_nu m))
             (\<lambda>l m'. (Inr (fadd l (logpdf E (self_lambda_distribution m') lam)), m')) m)"

definition update_lambda :: "('mvn, 'r) env \<Rightarrow> (unit, ('mvn, 'r) probit) action" where
  "update_lambda E =
     and_then (\<lambda>m. run_prog (lambda_slice_fn E) (SliceSampler_one E (self_lamb m)) m)
       (\<lambda>x m. (Inr (), m\<lparr>self_lamb := x\<rparr>))"

definition gamma0_slice_fn :: "('mvn, 'r) env \<Rightarrow> fl \<Rightarrow> (fl, ('mvn, 'r) probit) action" where
  "gamma0_slice_fn E gam0 m =
     and_then (log_marg_like E (self_gamma m) gam0 (self_lamb m) (self_nu m))
       (\<lambda>l m'. (Inr (fadd l (logpdf E (self_gamma0_distribution m') gam0)), m')) m"

definition update_gamma0 :: "('mvn, 'r) env \<Rightarrow> (unit, ('mvn, 'r) probit) action" where
  "update_gamma0 E =
     and_then (\<lambda>m. run_prog (gamma0_slice_fn E) (SliceSampler_one E (self_gamma0 m)) m)
       (\<lambda>x m. (Inr (), m\<lparr>self_gamma0 := x\<rparr>))"

text \<open>
  \<open>update_xi\<close>. The \<open>try\<close> of the closure covers the construction of the candidate's
  distribution and the call of \<open>correlate\<close>; it catches \<open>LinAlgError\<close> only.
\<close>

definition recorrelate ::
  "('mvn, 'r) env \<Rightarrow> fl \<Rightarrow> ndarray \<Rightarrow> (ndarray, ('mvn, 'r) probit) action"
where
  "recorrelate E x whitened =
     and_then (probit_distribution E x) (\<lambda>d m. (Mvn_correlate E d whitened, m))"

definition xi_slice_fn ::
  "('mvn, 'r) env \<Rightarrow> ndarray \<Rightarrow> fl \<Rightarrow> (fl, ('mvn, 'r) probit) action"
where
  "xi_slice_fn E whitened x m =
     (if fle x (Fin 0) \<or> fge x (Fin 1) then (Inr NInf, m)
      else
        case recorrelate E x whitened m of
          (Inl LinAlgError, m') \<Rightarrow> (Inr NInf, m')
        | (Inl e, m') \<Rightarrow> (Inl e, m')
        | (Inr gam, m') \<Rightarrow>
            and_then (log_marg_like E gam (self_gamma0 m') (self_lamb m') (self_nu m'))
              (\<lambda>l. and_then (xi_logpdf E x) (\<lambda>lx m''. (Inr (fadd l lx), m''))) m')"

definition update_xi :: "('mvn, 'r) env \<Rightarrow> (unit, ('mvn, 'r) probit) action" where
  "update_xi E =
     and_then (\<lambda>m. probit_distribution E (self_xi m) m)
       (\<lambda>d. and_then (\<lambda>m. (Mvn_whiten E d (self_gamma m), m))
         (\<lambda>whitened. and_then
             (\<lambda>m. run_prog (xi_slice_fn E whitened) (SliceSampler_one E (self_xi m)) m)
           (\<lambda>x. and_then (\<lambda>m. (Inr (), m\<lparr>self_xi := x\<rparr>))
             (\<lambda>_. and_then (\<lambda>m. recorrelate E (self_xi m) whitened m)
               (\<lambda>g m. (Inr (), m\<lparr>self_gamma := g\<rparr>))))))"

definition update_parameters :: "('mvn, 'r) env \<Rightarrow> (unit, ('mvn, 'r) probit) action" where
  "update_parameters E =
     and_then (update_gamma E)
       (\<lambda>_. and_then (update_gamma0 E)
         (\<lambda>_. and_then (update_lambda E)
           (\<lambda>_. and_then (update_nu E)
             (\<lambda>_ m. if self_sample_xi m then update_xi E m else (Inr (), m)))))"

subsection \<open>The constructor\<close>

text \<open>The arguments of \<open>__init__\<close>; \<open>None\<close> for xi asks for xi to be sampled.\<close>

record probit_args =
  arg_X :: matrix
  arg_Y :: ndarray
  arg_R :: matrix
  target_sparsity :: fl
  gamma0_v :: fl
  lambda_params :: "fl \<times> fl"
  nu_params :: "fl \<times> fl"
  arg_xi :: "fl option"
  xi_prior_shape :: "fl \<times> fl"
  check_finite :: bool
  min_eigenval :: fl
  jitter :: fl

definition default_args :: "matrix \<Rightarrow> ndarray \<Rightarrow> matrix \<Rightarrow> probit_args" where
  "default_args X' Y' R' =
     \<lparr>arg_X = X', arg_Y = Y', arg_R = R',
      target_sparsity = Fin (1 / 100),
      gamma0_v = Fin 1,
      lambda_params = (Fin (1 / 1000000), Fin (1 / 1000000)),
      nu_params = (Fin (1 / 1000000), Fin (1 / 1000000)),
      arg_xi = Some (Fin (999999 / 1000000)),
      xi_prior_shape = (Fin 1, Fin 1),
      check_finite = True,
      min_eigenval = Fin 0,
      jitter = Fin (1 / 1000000)\<rparr>"

text \<open>
  The attributes in the order the constructor sets them. \<open>self.gamma\<close> is set last,
  from a variate of the probit distribution, which is built through the cache of the
  object under construction; until then the attribute does not exist, and the record
  holds an empty array in its place. \<open>1./lambda_params[1]\<close> and \<open>1./self.nu_b\<close>
  divide Python floats.
\<close>

definition xi_setup :: "probit_args \<Rightarrow> bool \<times> dist option \<times> fl" where
  "xi_setup a =
     (case arg_xi a of
        None \<Rightarrow>
          (let d = BetaDist (fst (xi_prior_shape a)) (snd (xi_prior_shape a))
           in (True, Some d, dist_mean d))
      | Some x \<Rightarrow> (False, None, x))"

definition gamma0_prior :: "('mvn, 'r) env \<Rightarrow> probit_args \<Rightarrow> dist" where
  "gamma0_prior E a = NormDist (norm_ppf E (fsub (Fin 1) (target_sparsity a))) (gamma0_v a)"

definition new_object ::
  "('mvn, 'r) env \<Rightarrow> probit_args \<Rightarrow> 'mvn \<Rightarrow> fl \<Rightarrow> fl \<Rightarrow> 'r \<Rightarrow> ('mvn, 'r) probit"
where
  "new_object E a R' lambda_scale nu_scale r =
     (let gamma0_dist = gamma0_prior E a;
          lambda_dist = GammaDist (fst (lambda_params a)) lambda_scale;
          nu_dist = GammaDist (fst (nu_params a)) nu_scale
      in \<lparr>self_X = arg_X a, self_Y = arg_Y a, self_R = R',
          self_N = fst (shape (arg_X a)), self_P = snd (shape (arg_X a)),
          self_nu_a = fst (nu_params a), self_nu_b = snd (nu_params a),
          self_check_finite = check_finite a,
          self_sample_xi = fst (xi_setup a),
          self_xi_distribution = fst (snd (xi_setup a)),
          self_xi = snd (snd (xi_setup a)),
          self_gamma0_distribution = gamma0_dist, self_gamma0 = dist_mean gamma0_dist,
          self_lambda_distribution = lambda_dist, self_lamb = dist_mean lambda_dist,
          self_nu_distribution = nu_dist, self_nu = dist_mean nu_dist,
          self_probit_cache = Cache_new 4, self_ppi_cache = Cache_new 8,
          self_gamma = NdArray 0 [] [], np_random = r\<rparr>)"

definition Probit_init ::
  "('mvn, 'r) env \<Rightarrow> probit_args \<Rightarrow> 'r \<Rightarrow> (error + ('mvn, 'r) probit) \<times> 'r"
where
  "Probit_init E a r =
     (case Mvn_new E (arg_R a) (Some (min_eigenval a)) (Some (jitter a)) of
        Inl e \<Rightarrow> (Inl e, r)
      | Inr R' \<Rightarrow>
     (case py_div (Fin 1) (snd (lambda_params a)) of
        Inl e \<Rightarrow> (Inl e, r)
      | Inr lambda_scale \<Rightarrow>
     (case py_div (Fin 1) (snd (nu_params a)) of
        Inl e \<Rightarrow> (Inl e, r)
      | Inr nu_scale \<Rightarrow>
     (case probit_distribution E (self_xi (new_object E a R' lambda_scale nu_scale r))
             (new_object E a R' lambda_scale nu_scale r) of
        (Inl e, m') \<Rightarrow> (Inl e, np_random m')
      | (Inr d, m') \<Rightarrow>
          (case Mvn_rvs E d (np_random m') of
             (Inl e, r') \<Rightarrow> (Inl e, r')
           | (Inr g, r') \<Rightarrow> (Inr (m'\<lparr>self_gamma := g, np_random := r'\<rparr>), r'))))))"

subsection \<open>The chain\<close>

text \<open>
  The traces of \<open>run_mcmc\<close>. The per-parameter traces are allocated in detailed mode
  only; \<open>np.zeros\<close> raises on a negative length.
\<close>

record traces =
  logjoint_trace :: "fl list"
  inclusion_trace :: "bool list list"
  gamma0_trace :: "fl list"
  lambda_trace :: "fl list"
  nu_trace :: "fl list"
  xi_trace :: "fl list"
  loglike_trace :: "fl list"

definition np_zeros :: "int \<Rightarrow> error + fl list" where
  "np_zeros n = (if n < 0 then Inl ValueError else Inr (replicate (nat n) (Fin 0)))"

definition new_traces :: "bool \<Rightarrow> int \<Rightarrow> nat \<Rightarrow> error + traces" where
  "new_traces detailed iters p =
     (case np_zeros iters of
        Inl e \<Rightarrow> Inl e
      | Inr z \<Rightarrow>
          Inr (if detailed
               then \<lparr>logjoint_trace = z,
                     inclusion_trace = replicate (nat iters) (replicate p False),
                     gamma0_trace = z, lambda_trace = z, nu_trace = z, xi_trace = z,
                     loglike_trace = z\<rparr>
               else \<lparr>logjoint_trace = z, inclusion_trace = [], gamma0_trace = [],
                     lambda_trace = [], nu_trace = [], xi_trace = [], loglike_trace = []\<rparr>))"

definition inclusion_of :: "('mvn, 'r) probit \<Rightarrow> bool list" where
  "inclusion_of m = map (\<lambda>g. fgt g (self_gamma0 m)) (data (self_gamma m))"

text \<open>
  \<open>inclusion_trace[i, :] = self.gamma > self.gamma0\<close>: the row has p entries; a
  vector of one entry is stretched over it, a vector of another length raises.
\<close>

definition assign_row :: "nat \<Rightarrow> bool list list \<Rightarrow> nat \<Rightarrow> bool list \<Rightarrow> error + bool list list" where
  "assign_row p rows i v =
     (if length v = p then Inr (rows[i := v])
      else if length v = 1 then Inr (rows[i := replicate p (hd v)])
      else Inl ValueError)"

text \<open>
  The assignments under \<open>if i >= 0\<close>: the joint and marginal log-densities are those
  taken before the sweep, the parameters those after it.
\<close>

definition record_sweep ::
  "bool \<Rightarrow> int \<Rightarrow> fl \<Rightarrow> fl \<Rightarrow> ('mvn, 'r) probit \<Rightarrow> traces \<Rightarrow> error + traces"
where
  "record_sweep detailed i lj ll m t =
     (if i \<ge> 0 then
        (let t1 = t\<lparr>logjoint_trace := (logjoint_trace t)[nat i := lj]\<rparr>
         in if detailed then
              (case assign_row (self_P m) (inclusion_trace t) (nat i) (inclusion_of m) of
                 Inl e \<Rightarrow> Inl e
               | Inr rows \<Rightarrow>
                   Inr (t1\<lparr>inclusion_trace := rows,
                          gamma0_trace := (gamma0_trace t)[nat i := self_gamma0 m],
                          lambda_trace := (lambda_trace t)[nat i := self_lamb m],
                          nu_trace := (nu_trace t)[nat i := self_nu m],
                          xi_trace := (xi_trace t)[nat i := self_xi m],
                          loglike_trace := (loglike_trace t)[nat i := ll]\<rparr>))
            else Inr t1)
      else Inr t)"

definition mcmc_step ::
  "('mvn, 'r) env \<Rightarrow> bool \<Rightarrow> int \<Rightarrow> traces \<Rightarrow> (traces, ('mvn, 'r) probit) action"
where
  "mcmc_step E detailed i t =
     and_then (log_joint E)
       (\<lambda>lj. and_then
           (\<lambda>m. log_marg_like E (self_gamma m) (self_gamma0 m) (self_lamb m) (self_nu m) m)
         (\<lambda>ll. and_then (update_parameters E)
           (\<lambda>_ m. (record_sweep detailed i lj ll m t, m))))"

fun mcmc_loop ::
  "('mvn, 'r) env \<Rightarrow> bool \<Rightarrow> int list \<Rightarrow> traces \<Rightarrow> (traces, ('mvn, 'r) probit) action"
where
  "mcmc_loop E detailed [] t = (\<lambda>m. (Inr t, m))"
| "mcmc_loop E detailed (i # rest) t =
     and_then (mcmc_step E detailed i t) (mcmc_loop E detailed rest)"

text \<open>
  \<open>np.argmax\<close>: the first index of the greatest entry, the first NaN counting as the
  greatest; it raises on an empty array.
\<close>

fun argmax_from :: "fl \<Rightarrow> nat \<Rightarrow> nat \<Rightarrow> fl list \<Rightarrow> nat" where
  "argmax_from mp best i [] = best"
| "argmax_from mp best i (x # xs) =
     (if mp = NaN then best
      else if \<not> fle x mp then argmax_from x i (Suc i) xs
      else argmax_from mp best (Suc i) xs)"

definition np_argmax :: "fl list \<Rightarrow> error + nat" where
  "np_argmax xs = (case xs of [] \<Rightarrow> Inl ValueError | x # rest \<Rightarrow> Inr (argmax_from x 0 1 rest))"

text \<open>\<open>np.mean(inclusion_trace, 0)\<close>: the mean of each of the p columns.\<close>

definition column_means :: "nat \<Rightarrow> bool list list \<Rightarrow> fl list" where
  "column_means p rows =
     map (\<lambda>j. fdiv (Fin (real (length (filter (\<lambda>row. row ! j) rows))))
                    (Fin (real (length rows)))) [0..<p]"

record detailed_result =
  inclusion :: "fl list \<times> bool list"
  res_gamma0 :: "fl list"
  res_lambda :: "fl list"
  res_nu :: "fl list"
  res_xi :: "fl list"
  joint :: "fl list"
  likelihood :: "fl list"

datatype mcmc_result = JointTrace "fl list" | Detailed detailed_result

definition mcmc_result_of :: "bool \<Rightarrow> nat \<Rightarrow> traces \<Rightarrow> error + mcmc_result" where
  "mcmc_result_of detailed p t =
     (if \<not> detailed then Inr (JointTrace (logjoint_trace t))
      else
        case np_argmax (logjoint_trace t) of
          Inl e \<Rightarrow> Inl e
        | Inr k \<Rightarrow>
            Inr (Detailed
              \<lparr>inclusion = (column_means p (inclusion_trace t), inclusion_trace t ! k),
               res_gamma0 = gamma0_trace t, res_lambda = lambda_trace t,
               res_nu = nu_trace t, res_xi = xi_trace t,
               joint = logjoint_trace t, likelihood = loglike_trace t\<rparr>))"

text \<open>\<open>range(-burn_in, iters)\<close> is the list \<open>[- burn_in..iters - 1]\<close>.\<close>

definition run_mcmc ::
  "('mvn, 'r) env \<Rightarrow> int \<Rightarrow> int \<Rightarrow> bool \<Rightarrow> (mcmc_result, ('mvn, 'r) probit) action"
where
  "run_mcmc E iters burn_in detailed m =
     (case new_traces detailed iters (self_P m) of
        Inl e \<Rightarrow> (Inl e, m)
      | Inr t0 \<Rightarrow>
          and_then (mcmc_loop E detailed [- burn_in..iters - 1] t0)
            (\<lambda>t m'. (mcmc_result_of detailed (self_P m') t, m')) m)"

section \<open>Notions used to state the properties\<close>

subsection \<open>Histories of a cache\<close>

text \<open>
  A history is a list of reads and writes. The order of use lists the keys by their last
  use, the longest unused first; the least recently used entry of a cache is the first
  key of that order that the cache holds.
\<close>

datatype 'v cache_op = Lookup int | Store int 'v

fun apply_op :: "'v Cache \<Rightarrow> 'v cache_op \<Rightarrow> 'v Cache" where
  "apply_op c (Lookup k) = c"
| "apply_op c (Store k v) = (case Cache_setitem c k v of Inl _ \<Rightarrow> c | Inr c' \<Rightarrow> c')"

fun op_key :: "'v cache_op \<Rightarrow> int" where
  "op_key (Lookup k) = k"
| "op_key (Store k v) = k"

definition use_order :: "'v cache_op list \<Rightarrow> int list" where
  "use_order ops = foldl (\<lambda>ks x. filter (\<lambda>k. k \<noteq> op_key x) ks @ [op_key x]) [] ops"

definition least_recently_used :: "'v Cache \<Rightarrow> 'v cache_op list \<Rightarrow> int option" where
  "least_recently_used c ops =
     (case filter (\<lambda>k. map_of (items c) k \<noteq> None) (use_order ops) of
        [] \<Rightarrow> None | k # _ \<Rightarrow> Some k)"

definition evicted :: "'v Cache \<Rightarrow> 'v Cache \<Rightarrow> int list" where
  "evicted c c' = filter (\<lambda>k. map_of (items c') k = None) (map fst (items c))"

definition four_stores_one_read :: "unit cache_op list" where
  "four_stores_one_read = [Store 1 (), Store 2 (), Store 3 (), Store 4 (), Lookup 1]"

subsection \<open>What a call through the caches may change\<close>

text \<open>
  Two states of the object are related when the second differs from the first in the
  content of the two caches and in the random state only.
\<close>

definition caches_only :: "('mvn, 'r) probit \<Rightarrow> ('mvn, 'r) probit \<Rightarrow> bool" where
  "caches_only m m' =
     (\<exists>pc qc r. m' = m\<lparr>self_probit_cache := pc, self_ppi_cache := qc, np_random := r\<rparr>
        \<and> maxsize pc = maxsize (self_probit_cache m)
        \<and> maxsize qc = maxsize (self_ppi_cache m))"

subsection \<open>A small instance\<close>

text \<open>
  One predictor and one sample, and simple stand-ins for the parameters: a distribution
  object is its covariance matrix, built only from finite entries, and its log-density is
  minus the precision multiplier times the sum of the entries; its squared distance is
  the number of entries, and it cannot correlate the empty vector. The slice sampler tries
  half the current value once and stays where it is when that is rejected; the prior
  log-densities are 0 at every real number. The buffer of an array of the instance has
  one byte for an entry, the integer part of the value.
\<close>

definition example_bytes :: "fl list \<Rightarrow> nat list" where
  "example_bytes xs = map (\<lambda>x. case x of Fin r \<Rightarrow> nat \<lfloor>r\<rfloor> | _ \<Rightarrow> 0) xs"

definition example_array :: "nat \<Rightarrow> fl list \<Rightarrow> ndarray" where
  "example_array i xs = NdArray i (example_bytes xs) xs"

definition example_hashing :: hashing where
  "example_hashing =
     \<lparr>hash_float_other = (\<lambda>x. 7),
      hash_bytes = (\<lambda>bs. int (sum_list bs)),
      hash_tuple = (\<lambda>hs. sum_list hs)\<rparr>"

definition all_finite :: "matrix \<Rightarrow> bool" where
  "all_finite A = list_all (list_all is_finite) A"

definition example_slice :: "fl \<Rightarrow> (fl, nat) prog" where
  "example_slice x0 =
     Query x0 (\<lambda>fx. Rand Suc (\<lambda>r.
       Query (fmul x0 (Fin (1 / 2))) (\<lambda>fc.
         if fc \<noteq> NInf \<and> fge fc (fsub fx (Fin 1)) then Done (fmul x0 (Fin (1 / 2)))
         else if is_finite fx then Done x0
         else Fail (OtherError 0))))"

definition example_logpdf :: "dist \<Rightarrow> fl \<Rightarrow> fl" where
  "example_logpdf d x = (case x of Fin v \<Rightarrow> Fin 0 | NaN \<Rightarrow> NaN | _ \<Rightarrow> NInf)"

definition example_env :: "(matrix, nat) env" where
  "example_env =
     \<lparr>Mvn_new = (\<lambda>c e j. if all_finite c then Inr c else Inl ValueError),
      Mvn_cov = (\<lambda>d. d),
      Mvn_logpdf = (\<lambda>d y p. Inr (fneg (fmul p (fsum (map fsum d))))),
      Mvn_maha = (\<lambda>d y. Inr (Fin (real (length (data y))))),
      Mvn_whiten = (\<lambda>d y. Inr y),
      Mvn_correlate = (\<lambda>d z. if data z = [] then Inl LinAlgError else Inr z),
      Mvn_rvs = (\<lambda>d r. (Inr (example_array r (map (\<lambda>row. Fin 0) d)), Suc r)),
      SliceSampler_one = example_slice,
      EllipticalSliceSampler_one = (\<lambda>d x0. Query x0 (\<lambda>v. Done x0)),
      norm_ppf = (\<lambda>p. if p = Fin (99 / 100) then Fin (2326 / 1000) else Fin 0),
      logpdf = example_logpdf,
      random_gamma = (\<lambda>a s r. (Inr (fmul a s), Suc r)),
      hashes = example_hashing\<rparr>"

definition example_args :: probit_args where
  "example_args = default_args [[Fin 1]] (example_array 0 [Fin 1]) [[Fin 1]]"

text \<open>
  A step of the chain without an update of xi: the second state differs from the first in
  gamma, gamma0, lambda, nu, the content of the caches and the random state only.
\<close>

definition chain_step :: "('mvn, 'r) probit \<Rightarrow> ('mvn, 'r) probit \<Rightarrow> bool" where
  "chain_step m m' =
     (\<exists>g g0 l n pc qc r.
        m' = m\<lparr>self_gamma := g, self_gamma0 := g0, self_lamb := l, self_nu := n,
               self_probit_cache := pc, self_ppi_cache := qc, np_random := r\<rparr>
        \<and> maxsize pc = maxsize (self_probit_cache m)
        \<and> maxsize qc = maxsize (self_ppi_cache m))"

text \<open>n sweeps, one after the other; an exception ends them.\<close>

fun sweeps :: "('mvn, 'r) env \<Rightarrow> nat \<Rightarrow> (unit, ('mvn, 'r) probit) action" where
  "sweeps E 0 = (\<lambda>m. (Inr (), m))"
| "sweeps E (Suc n) = and_then (update_parameters E) (\<lambda>_. sweeps E n)"

text \<open>The four updates that every sweep makes, without the one of xi.\<close>

definition sweep_without_xi :: "('mvn, 'r) env \<Rightarrow> (unit, ('mvn, 'r) probit) action" where
  "sweep_without_xi E =
     and_then (update_gamma E)
       (\<lambda>_. and_then (update_gamma0 E)
         (\<lambda>_. and_then (update_lambda E) (\<lambda>_. update_nu E)))"

text \<open>The object that the constructor builds from the small instance.\<close>

definition example_object :: "(matrix, nat) probit" where
  "example_object =
     \<lparr>self_X = [[Fin 1]], self_Y = example_array 0 [Fin 1], self_R = [[Fin 1]],
      self_N = 1, self_P = 1,
      self_nu_a = Fin (1 / 1000000), self_nu_b = Fin (1 / 1000000),
      self_check_finite = True, self_sample_xi = False, self_xi_distribution = None,
      self_xi = Fin (999999 / 1000000),
      self_gamma0_distribution = NormDist (Fin (2326 / 1000)) (Fin 1),
      self_gamma0 = Fin (2326 / 1000),
      self_lambda_distribution = GammaDist (Fin (1 / 1000000)) (Fin 1000000),
      self_lamb = Fin 1,
      self_nu_distribution = GammaDist (Fin (1 / 1000000)) (Fin 1000000),
      self_nu = Fin 1,
      self_probit_cache = \<lparr>maxsize = 4, items = [(7, [[Fin 1]])]\<rparr>,
      self_ppi_cache = \<lparr>maxsize = 8, items = []\<rparr>,
      self_gamma = example_array 0 [Fin 0], np_random = 1\<rparr>"

text \<open>The object of the small instance after one sweep.\<close>

definition example_object_1 :: "(matrix, nat) probit" where
  "example_object_1 =
     example_object\<lparr>self_gamma0 := Fin (1163 / 1000), self_lamb := Fin (1 / 2),
        self_ppi_cache := \<lparr>maxsize = 8, items = [(8, [[Fin 2]]), (14, [[Fin 3]])]\<rparr>,
        np_random := 4\<rparr>"

text \<open>
  What the key reads of an argument of a cached method: the bytes of an array, or the
  float. The value of the argument is the content of the array, or the float.
\<close>

fun arg_bytes :: "arg \<Rightarrow> nat list + fl" where
  "arg_bytes (ArgArray a) = Inl (raw a)"
| "arg_bytes (ArgFloat x) = Inr x"

fun arg_value :: "arg \<Rightarrow> fl list + fl" where
  "arg_value (ArgArray a) = Inl (data a)"
| "arg_value (ArgFloat x) = Inr x"

text \<open>
  The array \<open>[-0.0]\<close> in the small instance: the value of \<open>[0.0]\<close>, and the sign bit
  in its byte.
\<close>

definition example_minus_zero :: ndarray where
  "example_minus_zero = NdArray 1 [128] [Fin 0]"


text \<open>The small instance with xi sampled, at the mean 1/2 of its beta(1, 1) prior.\<close>

definition example_object_sampled :: "(matrix, nat) probit" where
  "example_object_sampled =
     example_object\<lparr>self_sample_xi := True,
       self_xi_distribution := Some (BetaDist (Fin 1) (Fin 1)), self_xi := Fin (1 / 2)\<rparr>"

text \<open>
  What one pass of the loop of \<open>run_mcmc\<close> observes: the joint and the marginal
  log-density before the sweep and the object after it.
\<close>

record ('mvn, 'r) observation =
  joint_before :: fl
  like_before :: fl
  after :: "('mvn, 'r) probit"

definition observe :: "('mvn, 'r) env \<Rightarrow> (('mvn, 'r) observation, ('mvn, 'r) probit) action" where
  "observe E =
     and_then (log_joint E)
       (\<lambda>lj. and_then
           (\<lambda>m. log_marg_like E (self_gamma m) (self_gamma0 m) (self_lamb m) (self_nu m) m)
         (\<lambda>ll. and_then (update_parameters E)
           (\<lambda>_ m. (Inr \<lparr>joint_before = lj, like_before = ll, after = m\<rparr>, m))))"

text \<open>n observed sweeps in a row.\<close>

fun chain ::
  "('mvn, 'r) env \<Rightarrow> nat \<Rightarrow> (('mvn, 'r) observation list, ('mvn, 'r) probit) action"
where
  "chain E 0 = (\<lambda>m. (Inr [], m))"
| "chain E (Suc n) =
     and_then (observe E) (\<lambda>ob. and_then (chain E n) (\<lambda>obs m. (Inr (ob # obs), m)))"

text \<open>
  What \<open>run_mcmc\<close> returns in detailed mode, from the observations that are kept and
  an index k: the joint and marginal log-densities are those taken before each sweep,
  the parameters and the inclusion vectors those after it, and the second entry of
  \<open>inclusion\<close> is the vector after the sweep of index k.
\<close>

definition detailed_of ::
  "nat \<Rightarrow> nat \<Rightarrow> ('mvn, 'r) observation list \<Rightarrow> detailed_result"
where
  "detailed_of p k kept =
     \<lparr>inclusion = (column_means p (map (\<lambda>ob. inclusion_of (after ob)) kept),
                   inclusion_of (after (kept ! k))),
      res_gamma0 = map (\<lambda>ob. self_gamma0 (after ob)) kept,
      res_lambda = map (\<lambda>ob. self_lamb (after ob)) kept,
      res_nu = map (\<lambda>ob. self_nu (after ob)) kept,
      res_xi = map (\<lambda>ob. self_xi (after ob)) kept,
      joint = map joint_before kept,
      likelihood = map like_before kept\<rparr>"

text \<open>Overwriting a list from position k on.\<close>

definition fill :: "nat \<Rightarrow> 'a list \<Rightarrow> 'a list \<Rightarrow> 'a list" where
  "fill k vs xs = take k xs @ vs @ drop (k + length vs) xs"

text \<open>The traces after the observations have been written from position k on.\<close>

definition recorded ::
  "bool \<Rightarrow> nat \<Rightarrow> ('mvn, 'r) observation list \<Rightarrow> traces \<Rightarrow> traces"
where
  "recorded detailed k obs t =
     (if detailed then
        t\<lparr>logjoint_trace := fill k (map joint_before obs) (logjoint_trace t),
          inclusion_trace := fill k (map (\<lambda>ob. inclusion_of (after ob)) obs) (inclusion_trace t),
          gamma0_trace := fill k (map (\<lambda>ob. self_gamma0 (after ob)) obs) (gamma0_trace t),
          lambda_trace := fill k (map (\<lambda>ob. self_lamb (after ob)) obs) (lambda_trace t),
          nu_trace := fill k (map (\<lambda>ob. self_nu (after ob)) obs) (nu_trace t),
          xi_trace := fill k (map (\<lambda>ob. self_xi (after ob)) obs) (xi_trace t),
          loglike_trace := fill k (map like_before obs) (loglike_trace t)\<rparr>
      else t\<lparr>logjoint_trace := fill k (map joint_before obs) (logjoint_trace t)\<rparr>)"

text \<open>The traces have room for n entries from position k on.\<close>

definition room :: "bool \<Rightarrow> nat \<Rightarrow> traces \<Rightarrow> bool" where
  "room detailed n t =
     (n \<le> length (logjoint_trace t) \<and>
      (if detailed then
         n \<le> length (inclusion_trace t) \<and> n \<le> length (gamma0_trace t)
         \<and> n \<le> length (lambda_trace t) \<and> n \<le> length (nu_trace t)
         \<and> n \<le> length (xi_trace t) \<and> n \<le> length (loglike_trace t)
       else True))"

text \<open>The gamma of an observed object has as many entries as X has columns.\<close>

definition full_gamma :: "('mvn, 'r) observation \<Rightarrow> bool" where
  "full_gamma ob = (length (data (self_gamma (after ob))) = self_P (after ob))"

text \<open>
  The index that \<open>np.argmax\<close> gives for the joint log-densities taken before the kept
  sweeps, and the result of \<open>run_mcmc\<close> with it.
\<close>

definition map_index :: "('mvn, 'r) observation list \<Rightarrow> nat" where
  "map_index kept = (case np_argmax (map joint_before kept) of Inl _ \<Rightarrow> 0 | Inr k \<Rightarrow> k)"

definition run_result :: "bool \<Rightarrow> nat \<Rightarrow> ('mvn, 'r) observation list \<Rightarrow> mcmc_result" where
  "run_result detailed p kept =
     (if detailed then Detailed (detailed_of p (map_index kept) kept)
      else JointTrace (map joint_before kept))"






text \<open>
  The small instance for the update of xi: the covariance of R is [[2]], so that the
  covariance of the probit distribution of xi is [[1 + xi]]; a distribution whitens a
  vector of one entry by dividing it by its covariance and correlates it by multiplying
  with it. The floats 0.5 and 2^-62 have the hash 2^60, as in CPython, and 0.25 the hash
  2^59.
\<close>

definition example_whiten :: "matrix \<Rightarrow> ndarray \<Rightarrow> error + ndarray" where
  "example_whiten d y =
     (case (d, data y) of
        ([[c]], [v]) \<Rightarrow> Inr (example_array (ident y) [fdiv v c])
      | _ \<Rightarrow> Inl ValueError)"

definition example_correlate :: "matrix \<Rightarrow> ndarray \<Rightarrow> error + ndarray" where
  "example_correlate d z =
     (case (d, data z) of
        ([[c]], [v]) \<Rightarrow> Inr (example_array (ident z) [fmul c v])
      | (_, []) \<Rightarrow> Inl LinAlgError
      | _ \<Rightarrow> Inl ValueError)"

definition example_hashing_floats :: hashing where
  "example_hashing_floats =
     example_hashing\<lparr>hash_float_other :=
       (\<lambda>x. if x = Fin (1 / 2) \<or> x = Fin (1 / 2 ^ 62) then 2 ^ 60
            else if x = Fin (1 / 4) then 2 ^ 59 else 7)\<rparr>"

definition example_env_xi :: "(matrix, nat) env" where
  "example_env_xi =
     example_env\<lparr>Mvn_whiten := example_whiten, Mvn_correlate := example_correlate,
       hashes := example_hashing_floats\<rparr>"

text \<open>The same with a slice sampler that tries the candidate 2^-62.\<close>

definition example_env_xi_far :: "(matrix, nat) env" where
  "example_env_xi_far =
     example_env_xi\<lparr>SliceSampler_one :=
       (\<lambda>x0. Query x0 (\<lambda>fx. Query (Fin (1 / 2 ^ 62))
          (\<lambda>fc. if is_finite fc then Done (Fin (1 / 2 ^ 62)) else Done x0)))\<rparr>"

text \<open>
  A state of that instance: xi is sampled and 0.5, gamma is [3], and the probit cache
  holds the distribution of xi = 0.5.
\<close>

definition example_object_xi :: "(matrix, nat) probit" where
  "example_object_xi =
     example_object_sampled\<lparr>self_R := [[Fin 2]], self_gamma := example_array 0 [Fin 3],
       self_probit_cache := \<lparr>maxsize = 4, items = [(2 ^ 60, [[Fin (3 / 2)]])]\<rparr>\<rparr>"

text \<open>
  The state that the i-th observed sweep starts from: the object at the start for the
  first sweep, the object after the sweep before for the others. It is the state whose
  joint log-density the loop takes before that sweep.
\<close>

definition state_before ::
  "('mvn, 'r) probit \<Rightarrow> ('mvn, 'r) observation list \<Rightarrow> nat \<Rightarrow> ('mvn, 'r) probit"
where
  "state_before m obs i = (if i = 0 then m else after (obs ! (i - 1)))"

text \<open>
  The second entry of \<open>inclusion\<close> as the specification words it: the inclusion vector
  of the state with the highest recorded joint log-density. The sweeps of the run are
  observed from the object m on, the first b of them are discarded, and the index of the
  highest recorded joint log-density is that of \<open>np.argmax\<close>.
\<close>

definition spec_map_vector ::
  "('mvn, 'r) probit \<Rightarrow> ('mvn, 'r) observation list \<Rightarrow> nat \<Rightarrow> bool list"
where
  "spec_map_vector m obs b = inclusion_of (state_before m obs (b + map_index (drop b obs)))"

text \<open>
  The small instance with an elliptical slice sampler that moves: it evaluates the
  log-likelihood at the current point x and at 1 - x, and returns the second.
\<close>

definition example_flip :: "matrix \<Rightarrow> ndarray \<Rightarrow> (ndarray, nat) prog" where
  "example_flip d x0 =
     Query x0 (\<lambda>v.
       Query (example_array (ident x0) (map (fsub (Fin 1)) (data x0)))
         (\<lambda>v'. Done (example_array (ident x0) (map (fsub (Fin 1)) (data x0)))))"

definition example_env_flip :: "(matrix, nat) env" where
  "example_env_flip = example_env\<lparr>EllipticalSliceSampler_one := example_flip\<rparr>"

text \<open>
  The object that the constructor builds from the small instance with the target sparsity
  1/2, which puts gamma0 at 0, and the object after one and after two sweeps.
\<close>

definition example_object_zero :: "(matrix, nat) probit" where
  "example_object_zero =
     example_object\<lparr>self_gamma0_distribution := NormDist (Fin 0) (Fin 1), self_gamma0 := Fin 0\<rparr>"

definition example_object_zero_1 :: "(matrix, nat) probit" where
  "example_object_zero_1 =
     example_object_zero\<lparr>self_gamma := example_array 0 [Fin 1],
       self_ppi_cache :=
         \<lparr>maxsize = 8, items = [(1, [[Fin 2]]), (2, [[Fin 3]]), (8, [[Fin 5]])]\<rparr>,
       np_random := 4\<rparr>"

definition example_object_zero_2 :: "(matrix, nat) probit" where
  "example_object_zero_2 =
     example_object_zero_1\<lparr>self_gamma := example_array 0 [Fin 0], self_lamb := Fin (1 / 2),
       self_ppi_cache :=
         \<lparr>maxsize = 8,
          items = [(1, [[Fin 2]]), (2, [[Fin 3]]), (8, [[Fin 5]]), (7, [[Fin 3]])]\<rparr>,
       np_random := 7\<rparr>"












section \<open>Properties\<close>

subsection \<open>The cache\<close>

lemma popitems_full: "length xs = n \<Longrightarrow> 0 < n \<Longrightarrow> popitems n xs = tl xs"
  by (cases xs) (auto split: list.splits, (cases "tl xs"; simp)+)

lemma popitems_room: "length xs < n \<Longrightarrow> popitems n xs = xs"
  by (cases xs) auto

lemma dict_set_new: "map_of xs k = None \<Longrightarrow> dict_set k v xs = xs @ [(k, v)]"
  by (induction xs) (auto split: if_splits)

lemma map_of_tl_None: "map_of xs k = None \<Longrightarrow> map_of (tl xs) k = None"
  by (cases xs) (auto split: if_splits)

lemma setitem_full:
  assumes "map_of (items c) k = None" "length (items c) = maxsize c" "0 < maxsize c"
  shows "Cache_setitem c k v = Inr (c\<lparr>items := tl (items c) @ [(k, v)]\<rparr>)"
  using assms by (simp add: Cache_setitem_def popitems_full dict_set_new map_of_tl_None)

lemma setitem_room:
  assumes "map_of (items c) k = None" "length (items c) < maxsize c"
  shows "Cache_setitem c k v = Inr (c\<lparr>items := items c @ [(k, v)]\<rparr>)"
  using assms by (simp add: Cache_setitem_def popitems_room dict_set_new)

lemma Cache_setitem_maxsize: "Cache_setitem c k v = Inr c' \<Longrightarrow> maxsize c' = maxsize c"
  by (auto simp: Cache_setitem_def Let_def split: if_splits)

lemma cachedmethod_hit:
  "Cache_getitem (cache m) k = Some v \<Longrightarrow> cachedmethod cache put k f m = (Inr v, m)"
  by (simp add: cachedmethod_def)

subsection \<open>Calls through the caches\<close>

lemma caches_only_refl: "caches_only m m"
  unfolding caches_only_def
  by (rule exI[of _ "self_probit_cache m"], rule exI[of _ "self_ppi_cache m"],
      rule exI[of _ "np_random m"]) simp

lemma caches_only_trans:
  assumes "caches_only a b" "caches_only b c"
  shows "caches_only a c"
proof -
  from assms(1) obtain p1 q1 r1 where
    b: "b = a\<lparr>self_probit_cache := p1, self_ppi_cache := q1, np_random := r1\<rparr>"
    and s1: "maxsize p1 = maxsize (self_probit_cache a)" "maxsize q1 = maxsize (self_ppi_cache a)"
    unfolding caches_only_def by blast
  from assms(2) obtain p2 q2 r2 where
    c: "c = b\<lparr>self_probit_cache := p2, self_ppi_cache := q2, np_random := r2\<rparr>"
    and s2: "maxsize p2 = maxsize (self_probit_cache b)" "maxsize q2 = maxsize (self_ppi_cache b)"
    unfolding caches_only_def by blast
  have "c = a\<lparr>self_probit_cache := p2, self_ppi_cache := q2, np_random := r2\<rparr>"
    by (simp add: c b)
  moreover have "maxsize p2 = maxsize (self_probit_cache a)" using s1 s2 by (simp add: b)
  moreover have "maxsize q2 = maxsize (self_ppi_cache a)" using s1 s2 by (simp add: b)
  ultimately show ?thesis unfolding caches_only_def by blast
qed

lemma caches_only_random: "caches_only m (m\<lparr>np_random := r\<rparr>)"
  unfolding caches_only_def
  by (rule exI[of _ "self_probit_cache m"], rule exI[of _ "self_ppi_cache m"],
      rule exI[of _ r]) simp

lemma caches_only_probit_cache:
  "maxsize c = maxsize (self_probit_cache m) \<Longrightarrow> caches_only m (m\<lparr>self_probit_cache := c\<rparr>)"
  unfolding caches_only_def
  by (rule exI[of _ c], rule exI[of _ "self_ppi_cache m"], rule exI[of _ "np_random m"]) simp

lemma caches_only_ppi_cache:
  "maxsize c = maxsize (self_ppi_cache m) \<Longrightarrow> caches_only m (m\<lparr>self_ppi_cache := c\<rparr>)"
  unfolding caches_only_def
  by (rule exI[of _ "self_probit_cache m"], rule exI[of _ c], rule exI[of _ "np_random m"]) simp

lemma caches_only_maxsize:
  "caches_only m m' \<Longrightarrow> maxsize (self_probit_cache m') = maxsize (self_probit_cache m)
     \<and> maxsize (self_ppi_cache m') = maxsize (self_ppi_cache m)"
  unfolding caches_only_def by auto

lemma probit_distribution_caches_only:
  "caches_only m (snd (probit_distribution E x m))"
  unfolding probit_distribution_def cachedmethod_def
  by (auto split: option.splits sum.splits
      intro: caches_only_refl caches_only_probit_cache dest: Cache_setitem_maxsize)

lemma ppi_distribution_caches_only:
  "caches_only m (snd (ppi_distribution E g g0 l m))"
  unfolding ppi_distribution_def cachedmethod_def
  by (auto split: option.splits sum.splits
      intro: caches_only_refl caches_only_ppi_cache dest: Cache_setitem_maxsize)

subsection \<open>The constructor\<close>

lemma Probit_init_success:
  assumes "Probit_init E a r = (Inr m, r')"
  obtains R' ls ns d m1 g where
    "Mvn_new E (arg_R a) (Some (min_eigenval a)) (Some (jitter a)) = Inr R'"
    "py_div (Fin 1) (snd (lambda_params a)) = Inr ls"
    "py_div (Fin 1) (snd (nu_params a)) = Inr ns"
    "probit_distribution E (self_xi (new_object E a R' ls ns r)) (new_object E a R' ls ns r)
       = (Inr d, m1)"
    "Mvn_rvs E d (np_random m1) = (Inr g, r')"
    "m = m1\<lparr>self_gamma := g, np_random := r'\<rparr>"
  using assms unfolding Probit_init_def
  by (auto split: sum.splits prod.splits)

lemma Probit_init_caches_only:
  assumes "Probit_init E a r = (Inr m, r')"
  obtains R' ls ns m1 g where
    "caches_only (new_object E a R' ls ns r) m1"
    "m = m1\<lparr>self_gamma := g, np_random := r'\<rparr>"
    "py_div (Fin 1) (snd (lambda_params a)) = Inr ls"
    "py_div (Fin 1) (snd (nu_params a)) = Inr ns"
proof -
  from assms obtain R' ls ns d m1 g where
    pd: "probit_distribution E (self_xi (new_object E a R' ls ns r)) (new_object E a R' ls ns r)
       = (Inr d, m1)"
    and m: "m = m1\<lparr>self_gamma := g, np_random := r'\<rparr>"
    and sc: "py_div (Fin 1) (snd (lambda_params a)) = Inr ls"
       "py_div (Fin 1) (snd (nu_params a)) = Inr ns"
    by (rule Probit_init_success)
  have "caches_only (new_object E a R' ls ns r) m1"
    using probit_distribution_caches_only[of "new_object E a R' ls ns r" E] pd
    by (metis snd_conv)
  with m sc show ?thesis using that by blast
qed

lemmas example_defs = example_env_def example_hashing_def example_args_def default_args_def
  example_array_def example_bytes_def
  all_finite_def example_slice_def example_logpdf_def

lemma example_init: "\<exists>m r'. Probit_init example_env example_args 0 = (Inr m, r')"
  by (simp add: example_defs Probit_init_def new_object_def Let_def py_div_def xi_setup_def
      gamma0_prior_def probit_distribution_def cachedmethod_def Cache_new_def
      Cache_getitem_def new_probit_distribution_def probit_cov_def np_add_def scalar_mul_def
      np_eye_def shape_def fsub_def cache_key_def py_hash_float_def Cache_setitem_def)

subsection \<open>Capacity and eviction of the two caches\<close>

text \<open>
  C5, as the code has it. The constructor gives the probit cache the capacity 4 and the
  PPI cache the capacity 8. A write under a new key into a full cache removes the entry
  that was inserted first and appends the new one; a call that finds its key leaves the
  object, and with it the order of the entries, as it was. The eviction is by age of
  insertion, not by last use.
\<close>

theorem C5_capacities_and_oldest_evicted:
  assumes "Probit_init E a r = (Inr m, r')"
  shows "maxsize (self_probit_cache m) = 4 \<and> maxsize (self_ppi_cache m) = 8
    \<and> (\<forall>(c :: 'mvn Cache) k v.
          map_of (items c) k = None \<and> length (items c) = maxsize c \<and> 0 < maxsize c
          \<longrightarrow> Cache_setitem c k v = Inr (c\<lparr>items := tl (items c) @ [(k, v)]\<rparr>))
    \<and> (\<forall>x v. Cache_getitem (self_probit_cache m) (cache_key (hashes E) [ArgFloat x]) = Some v
          \<longrightarrow> probit_distribution E x m = (Inr v, m))
    \<and> (\<forall>g g0 l v.
          Cache_getitem (self_ppi_cache m)
            (cache_key (hashes E) [ArgArray g, ArgFloat g0, ArgFloat l]) = Some v
          \<longrightarrow> ppi_distribution E g g0 l m = (Inr v, m))"
proof -
  from assms obtain R' ls ns m1 g where
    co: "caches_only (new_object E a R' ls ns r) m1"
    and m: "m = m1\<lparr>self_gamma := g, np_random := r'\<rparr>"
    by (rule Probit_init_caches_only)
  have cap: "maxsize (self_probit_cache m) = 4 \<and> maxsize (self_ppi_cache m) = 8"
    using caches_only_maxsize[OF co] m by (simp add: new_object_def Let_def Cache_new_def)
  have ev: "\<forall>(c :: 'mvn Cache) k v.
          map_of (items c) k = None \<and> length (items c) = maxsize c \<and> 0 < maxsize c
          \<longrightarrow> Cache_setitem c k v = Inr (c\<lparr>items := tl (items c) @ [(k, v)]\<rparr>)"
    by (simp add: setitem_full)
  have h1: "\<forall>x v. Cache_getitem (self_probit_cache m) (cache_key (hashes E) [ArgFloat x]) = Some v
          \<longrightarrow> probit_distribution E x m = (Inr v, m)"
    by (simp add: probit_distribution_def cachedmethod_hit)
  have h2: "\<forall>g g0 l v.
          Cache_getitem (self_ppi_cache m)
            (cache_key (hashes E) [ArgArray g, ArgFloat g0, ArgFloat l]) = Some v
          \<longrightarrow> ppi_distribution E g g0 l m = (Inr v, m)"
    by (simp add: ppi_distribution_def cachedmethod_hit)
  from cap ev h1 h2 show ?thesis by blast
qed

theorem C5_capacities_and_oldest_evicted_witness:
  "\<exists>m r'. Probit_init example_env example_args 0 = (Inr m, r')
      \<and> maxsize (self_probit_cache m) = 4 \<and> maxsize (self_ppi_cache m) = 8
      \<and> probit_distribution example_env (Fin (999999 / 1000000)) m
            = (Inr [[Fin 1]], m)"
proof -
  from example_init obtain m r' where
    i: "Probit_init example_env example_args 0 = (Inr m, r')" by blast
  note t = C5_capacities_and_oldest_evicted[OF i]
  have c: "Cache_getitem (self_probit_cache m)
          (cache_key (hashes example_env) [ArgFloat (Fin (999999 / 1000000))])
        = Some [[Fin 1]]"
    using i
    by (simp add: example_defs Probit_init_def new_object_def Let_def py_div_def xi_setup_def
      gamma0_prior_def probit_distribution_def cachedmethod_def Cache_new_def
      Cache_getitem_def new_probit_distribution_def probit_cov_def np_add_def scalar_mul_def
      np_eye_def shape_def fsub_def cache_key_def py_hash_float_def Cache_setitem_def)
      auto
  from t have cap: "maxsize (self_probit_cache m) = 4 \<and> maxsize (self_ppi_cache m) = 8"
    by (elim conjE) (rule conjI)
  from t have "\<forall>x v. Cache_getitem (self_probit_cache m)
          (cache_key (hashes example_env) [ArgFloat x]) = Some v
          \<longrightarrow> probit_distribution example_env x m = (Inr v, m)"
    by (elim conjE)
  from this[rule_format, OF c] cap i show ?thesis
    by (intro exI[of _ m] exI[of _ r']) simp
qed

text \<open>
  The claim as the specification words it fails. Four entries are stored in a cache of
  capacity 4 and the first one is then read, which makes it the most recently used and
  the second one the least recently used. Storing a fifth entry evicts the first.
\<close>

theorem C5_least_recently_used_counterexample:
  "evicted (foldl apply_op (Cache_new 4) four_stores_one_read)
           (apply_op (foldl apply_op (Cache_new 4) four_stores_one_read) (Store 5 ())) = [1]
   \<and> least_recently_used (foldl apply_op (Cache_new 4) four_stores_one_read)
         four_stores_one_read = Some 2"
  by (simp add: four_stores_one_read_def Cache_new_def Cache_setitem_def evicted_def
      least_recently_used_def use_order_def)

subsection \<open>Closures and sampler runs change the caches only\<close>

lemma and_then_caches_only:
  assumes "\<And>m. caches_only m (snd (act m))" "\<And>a m. caches_only m (snd (f a m))"
  shows "caches_only m (snd (and_then act f m))"
proof (cases "act m")
  case (Pair res m1)
  have 1: "caches_only m m1" using assms(1)[of m] Pair by simp
  show ?thesis
  proof (cases res)
    case (Inl e) with Pair 1 show ?thesis by (simp add: and_then_def)
  next
    case (Inr v)
    have "caches_only m1 (snd (f v m1))" by (rule assms(2))
    with 1 have "caches_only m (snd (f v m1))" by (rule caches_only_trans)
    with Pair Inr show ?thesis by (simp add: and_then_def)
  qed
qed

lemma run_prog_caches_only:
  assumes "\<And>x m. caches_only m (snd (f x m))"
  shows "caches_only m (snd (run_prog f p m))"
proof (induction p arbitrary: m)
  case (Query x k)
  show ?case
  proof (cases "f x m")
    case (Pair res m1)
    have 1: "caches_only m m1" using assms[of m x] Pair by simp
    show ?thesis
    proof (cases res)
      case (Inl e) with Pair 1 show ?thesis by simp
    next
      case (Inr v)
      have "caches_only m1 (snd (run_prog f (k v) m1))" using Query by blast
      with 1 have "caches_only m (snd (run_prog f (k v) m1))" by (rule caches_only_trans)
      with Pair Inr show ?thesis by simp
    qed
  qed
next
  case (Rand step k)
  have "caches_only (m\<lparr>np_random := step (np_random m)\<rparr>)
     (snd (run_prog f (k (np_random m)) (m\<lparr>np_random := step (np_random m)\<rparr>)))"
    using Rand by blast
  with caches_only_random have
    "caches_only m (snd (run_prog f (k (np_random m)) (m\<lparr>np_random := step (np_random m)\<rparr>)))"
    by (rule caches_only_trans)
  then show ?case by simp
qed (simp_all add: caches_only_refl)

lemma log_marg_like_caches_only:
  "caches_only m (snd (log_marg_like E g g0 l n m))"
  unfolding log_marg_like_def
  by (rule and_then_caches_only) (simp_all add: ppi_distribution_caches_only caches_only_refl)

lemma gamma_log_like_caches_only: "caches_only m (snd (gamma_log_like E g m))"
  by (simp add: gamma_log_like_def log_marg_like_caches_only)

lemma lambda_slice_fn_caches_only: "caches_only m (snd (lambda_slice_fn E l m))"
  unfolding lambda_slice_fn_def
  by (auto intro!: and_then_caches_only simp: log_marg_like_caches_only caches_only_refl)

lemma gamma0_slice_fn_caches_only: "caches_only m (snd (gamma0_slice_fn E l m))"
  unfolding gamma0_slice_fn_def
  by (auto intro!: and_then_caches_only simp: log_marg_like_caches_only caches_only_refl)


lemma xi_logpdf_caches_only: "caches_only m (snd (xi_logpdf E x m))"
  by (simp add: xi_logpdf_def caches_only_refl split: option.splits)


lemma log_joint_caches_only: "caches_only m (snd (log_joint E m))"
  unfolding log_joint_def
  by (intro and_then_caches_only)
     (simp_all add: log_marg_like_caches_only probit_distribution_caches_only
        xi_logpdf_caches_only caches_only_refl)

subsection \<open>What the updates of gamma, gamma0, lambda and nu may change\<close>

lemma chain_stepI:
  assumes "m' = m\<lparr>self_gamma := ga, self_gamma0 := th, self_lamb := la, self_nu := nv,
               self_probit_cache := pc, self_ppi_cache := qc, np_random := rs\<rparr>"
   "maxsize pc = maxsize (self_probit_cache m)" "maxsize qc = maxsize (self_ppi_cache m)"
  shows "chain_step m m'"
  unfolding chain_step_def using assms by blast

lemma chain_step_refl: "chain_step m m"
  by (rule chain_stepI[where ga="self_gamma m" and th="self_gamma0 m" and la="self_lamb m" and nv="self_nu m" and pc="self_probit_cache m" and qc="self_ppi_cache m" and rs="np_random m"]) simp_all

lemma caches_only_chain_step: "caches_only m m' \<Longrightarrow> chain_step m m'"
proof -
  assume "caches_only m m'"
  then obtain pc qc r where
    "m' = m\<lparr>self_probit_cache := pc, self_ppi_cache := qc, np_random := r\<rparr>"
    "maxsize pc = maxsize (self_probit_cache m)" "maxsize qc = maxsize (self_ppi_cache m)"
    unfolding caches_only_def by blast
  then show ?thesis
    by (intro chain_stepI[where ga="self_gamma m" and th="self_gamma0 m" and la="self_lamb m" and nv="self_nu m" and pc=pc and qc=qc and rs=r])
       simp_all
qed

lemma chain_step_trans:
  assumes "chain_step a b" "chain_step b c"
  shows "chain_step a c"
proof -
  from assms(1) obtain g g0 l n pc qc r where
    b: "b = a\<lparr>self_gamma := g, self_gamma0 := g0, self_lamb := l, self_nu := n,
               self_probit_cache := pc, self_ppi_cache := qc, np_random := r\<rparr>"
    and s1: "maxsize pc = maxsize (self_probit_cache a)" "maxsize qc = maxsize (self_ppi_cache a)"
    unfolding chain_step_def by blast
  from assms(2) obtain g' g0' l' n' pc' qc' r' where
    c: "c = b\<lparr>self_gamma := g', self_gamma0 := g0', self_lamb := l', self_nu := n',
               self_probit_cache := pc', self_ppi_cache := qc', np_random := r'\<rparr>"
    and s2: "maxsize pc' = maxsize (self_probit_cache b)" "maxsize qc' = maxsize (self_ppi_cache b)"
    unfolding chain_step_def by blast
  show ?thesis
    by (rule chain_stepI[where ga=g' and th=g0' and la=l' and nv=n' and pc=pc' and qc=qc' and rs=r']) (use s1 s2 in \<open>simp_all add: b c\<close>)
qed

lemma chain_step_fields:
  assumes "chain_step m m'"
  shows "self_xi m' = self_xi m" "self_sample_xi m' = self_sample_xi m"
    "self_X m' = self_X m" "self_Y m' = self_Y m" "self_N m' = self_N m" "self_P m' = self_P m"
    "self_nu_a m' = self_nu_a m" "self_nu_b m' = self_nu_b m"
    "self_xi_distribution m' = self_xi_distribution m"
    "self_lambda_distribution m' = self_lambda_distribution m"
    "self_gamma0_distribution m' = self_gamma0_distribution m"
    "self_nu_distribution m' = self_nu_distribution m"
    "self_R m' = self_R m"
  using assms unfolding chain_step_def by auto

lemma chain_step_gamma: "chain_step m (m\<lparr>self_gamma := g\<rparr>)"
  by (rule chain_stepI[where ga=g and th="self_gamma0 m" and la="self_lamb m" and nv="self_nu m" and pc="self_probit_cache m" and qc="self_ppi_cache m" and rs="np_random m"]) simp_all

lemma chain_step_gamma0: "chain_step m (m\<lparr>self_gamma0 := g\<rparr>)"
  by (rule chain_stepI[where ga="self_gamma m" and th=g and la="self_lamb m" and nv="self_nu m" and pc="self_probit_cache m" and qc="self_ppi_cache m" and rs="np_random m"]) simp_all

lemma chain_step_lamb: "chain_step m (m\<lparr>self_lamb := g\<rparr>)"
  by (rule chain_stepI[where ga="self_gamma m" and th="self_gamma0 m" and la=g and nv="self_nu m" and pc="self_probit_cache m" and qc="self_ppi_cache m" and rs="np_random m"]) simp_all

lemma chain_step_nu: "chain_step m (m\<lparr>self_nu := v, np_random := r\<rparr>)"
  by (rule chain_stepI[where ga="self_gamma m" and th="self_gamma0 m" and la="self_lamb m" and nv=v and pc="self_probit_cache m" and qc="self_ppi_cache m" and rs=r]) simp_all

lemma chain_step_random: "chain_step m (m\<lparr>np_random := r\<rparr>)"
  by (rule caches_only_chain_step[OF caches_only_random])

lemma and_then_chain_step:
  assumes "\<And>m. chain_step m (snd (act m))" "\<And>a m. chain_step m (snd (f a m))"
  shows "chain_step m (snd (and_then act f m))"
proof (cases "act m")
  case (Pair res m1)
  have 1: "chain_step m m1" using assms(1)[of m] Pair by simp
  show ?thesis
  proof (cases res)
    case (Inl e) with Pair 1 show ?thesis by (simp add: and_then_def)
  next
    case (Inr v)
    have "chain_step m1 (snd (f v m1))" by (rule assms(2))
    with 1 have "chain_step m (snd (f v m1))" by (rule chain_step_trans)
    with Pair Inr show ?thesis by (simp add: and_then_def)
  qed
qed

lemma update_gamma_chain_step: "chain_step m (snd (update_gamma E m))"
  unfolding update_gamma_def
  apply (rule and_then_chain_step)
   apply (rule caches_only_chain_step, rule probit_distribution_caches_only)
  apply (rule and_then_chain_step)
   apply (rule caches_only_chain_step, rule run_prog_caches_only, rule gamma_log_like_caches_only)
  apply (simp add: chain_step_gamma)
  done

lemma update_gamma0_chain_step: "chain_step m (snd (update_gamma0 E m))"
  unfolding update_gamma0_def
  apply (rule and_then_chain_step)
   apply (rule caches_only_chain_step, rule run_prog_caches_only, rule gamma0_slice_fn_caches_only)
  apply (simp add: chain_step_gamma0)
  done

lemma update_lambda_chain_step: "chain_step m (snd (update_lambda E m))"
  unfolding update_lambda_def
  apply (rule and_then_chain_step)
   apply (rule caches_only_chain_step, rule run_prog_caches_only, rule lambda_slice_fn_caches_only)
  apply (simp add: chain_step_lamb)
  done

lemma update_nu_chain_step: "chain_step m (snd (update_nu E m))"
  unfolding update_nu_def
  apply (rule and_then_chain_step)
   apply (rule caches_only_chain_step, rule ppi_distribution_caches_only)
  apply (rule and_then_chain_step)
   apply (simp add: chain_step_refl)
  apply (auto simp: Let_def chain_step_nu chain_step_random split: prod.splits sum.splits)
  done

lemma update_sample_xi:
  "update_gamma E m = (r, m') \<Longrightarrow> self_sample_xi m' = self_sample_xi m"
  "update_gamma0 E m = (r, m') \<Longrightarrow> self_sample_xi m' = self_sample_xi m"
  "update_lambda E m = (r, m') \<Longrightarrow> self_sample_xi m' = self_sample_xi m"
  "update_nu E m = (r, m') \<Longrightarrow> self_sample_xi m' = self_sample_xi m"
  using chain_step_fields(2)[OF update_gamma_chain_step[where m=m and E=E]]
        chain_step_fields(2)[OF update_gamma0_chain_step[where m=m and E=E]]
        chain_step_fields(2)[OF update_lambda_chain_step[where m=m and E=E]]
        chain_step_fields(2)[OF update_nu_chain_step[where m=m and E=E]]
  by simp_all

lemma update_parameters_fixed_xi:
  assumes "\<not> self_sample_xi m"
  shows "update_parameters E m =
     and_then (update_gamma E)
       (\<lambda>_. and_then (update_gamma0 E)
         (\<lambda>_. and_then (update_lambda E) (\<lambda>_. update_nu E))) m"
  using assms unfolding update_parameters_def and_then_def
  by (auto split: prod.splits sum.splits dest: update_sample_xi)

lemma update_parameters_chain_step:
  assumes "\<not> self_sample_xi m"
  shows "chain_step m (snd (update_parameters E m))"
  unfolding update_parameters_fixed_xi[OF assms]
  apply (rule and_then_chain_step, rule update_gamma_chain_step)
  apply (rule and_then_chain_step, rule update_gamma0_chain_step)
  apply (rule and_then_chain_step, rule update_lambda_chain_step)
  apply (rule update_nu_chain_step)
  done

lemma sweeps_chain_step:
  "\<not> self_sample_xi m \<Longrightarrow> chain_step m (snd (sweeps E n m))"
proof (induction n arbitrary: m)
  case 0 show ?case by (simp add: chain_step_refl)
next
  case (Suc n)
  obtain res m1 where u: "update_parameters E m = (res, m1)" by (cases "update_parameters E m")
  have 1: "chain_step m m1" using update_parameters_chain_step[OF Suc.prems, of E] u by simp
  show ?case
  proof (cases res)
    case (Inl e) with u 1 show ?thesis by (simp add: and_then_def)
  next
    case (Inr x)
    have "\<not> self_sample_xi m1" using chain_step_fields(2)[OF 1] Suc.prems by simp
    from Suc.IH[OF this] 1 have "chain_step m (snd (sweeps E n m1))" using chain_step_trans by blast
    with u Inr show ?thesis by (simp add: and_then_def)
  qed
qed

subsection \<open>The prior of the threshold\<close>

lemma caches_only_fields:
  assumes "caches_only m m'"
  shows "self_gamma m' = self_gamma m" "self_gamma0 m' = self_gamma0 m"
    "self_lamb m' = self_lamb m" "self_nu m' = self_nu m"
    "self_xi m' = self_xi m" "self_sample_xi m' = self_sample_xi m"
    "self_X m' = self_X m" "self_Y m' = self_Y m" "self_N m' = self_N m" "self_P m' = self_P m"
    "self_nu_a m' = self_nu_a m" "self_nu_b m' = self_nu_b m"
    "self_xi_distribution m' = self_xi_distribution m"
    "self_lambda_distribution m' = self_lambda_distribution m"
    "self_gamma0_distribution m' = self_gamma0_distribution m"
    "self_nu_distribution m' = self_nu_distribution m"
    "self_R m' = self_R m"
  using assms unfolding caches_only_def by auto

lemma fadd_zero_left: "x \<noteq> NaN \<Longrightarrow> fadd (Fin 0) x = x"
  by (cases x) simp_all

lemma norm_moments:
  assumes "0 < v" "loc \<noteq> NaN"
  shows "dist_mean (NormDist loc (Fin v)) = loc" "dist_var (NormDist loc (Fin v)) = Fin (v * v)"
  using assms by (simp_all add: dist_mean_def dist_var_def dist_valid_def fadd_zero_left)

lemma beta_mean:
  assumes "0 < pa" "0 < pb"
  shows "dist_mean (BetaDist (Fin pa) (Fin pb)) = Fin (pa / (pa + pb))"
  using assms by (simp add: dist_mean_def dist_valid_def)

text \<open>
  C3. The constructor gives gamma0 the prior \<open>norm(loc, scale)\<close> with the location
  \<open>norm.ppf(1 - target_sparsity)\<close> and the scale \<open>gamma0_v\<close>, and starts gamma0 at
  the mean of that prior, which is the location. The scale of scipy's normal distribution is
  its standard deviation: the variance of the prior is the square of \<open>gamma0_v\<close>, not
  \<open>gamma0_v\<close>, which the docstring of the constructor calls the variance. With
  \<open>gamma0_v = 2\<close> the prior has the variance 4.
\<close>

theorem C3_gamma0_prior_and_start:
  assumes "Probit_init E a r = (Inr m, r')"
  shows "self_gamma0_distribution m
           = NormDist (norm_ppf E (fsub (Fin 1) (target_sparsity a))) (gamma0_v a)
    \<and> self_gamma0 m = dist_mean (self_gamma0_distribution m)
    \<and> (\<forall>v. gamma0_v a = Fin v \<and> 0 < v \<and> norm_ppf E (fsub (Fin 1) (target_sparsity a)) \<noteq> NaN
         \<longrightarrow> dist_mean (self_gamma0_distribution m)
               = norm_ppf E (fsub (Fin 1) (target_sparsity a))
           \<and> dist_var (self_gamma0_distribution m) = Fin (v * v))"
proof -
  from assms obtain R' ls ns m1 g where
    co: "caches_only (new_object E a R' ls ns r) m1"
    and m: "m = m1\<lparr>self_gamma := g, np_random := r'\<rparr>"
    by (rule Probit_init_caches_only)
  have d: "self_gamma0_distribution m
           = NormDist (norm_ppf E (fsub (Fin 1) (target_sparsity a))) (gamma0_v a)"
    using caches_only_fields(15)[OF co] m
    by (simp add: new_object_def Let_def gamma0_prior_def)
  have s: "self_gamma0 m = dist_mean (self_gamma0_distribution m)"
    using caches_only_fields(2,15)[OF co] m by (simp add: new_object_def Let_def)
  show ?thesis using d s by (simp add: norm_moments)
qed

lemmas init_defs = Probit_init_def new_object_def Let_def py_div_def xi_setup_def
  gamma0_prior_def probit_distribution_def cachedmethod_def Cache_new_def
  Cache_getitem_def new_probit_distribution_def probit_cov_def np_add_def scalar_mul_def
  np_eye_def shape_def fsub_def cache_key_def py_hash_float_def Cache_setitem_def
  dist_mean_def dist_valid_def

lemma example_object_init:
  "Probit_init example_env example_args 0 = (Inr example_object, 1)"
  by (simp add: example_defs init_defs example_object_def)

lemma example_init_wide_prior:
  "Probit_init example_env (example_args\<lparr>gamma0_v := Fin 2\<rparr>) 0
     = (Inr (example_object\<lparr>self_gamma0_distribution := NormDist (Fin (2326 / 1000)) (Fin 2)\<rparr>), 1)"
  by (simp add: example_defs init_defs example_object_def)

theorem C3_gamma0_prior_and_start_witness:
  "dist_var (self_gamma0_distribution
      (example_object\<lparr>self_gamma0_distribution := NormDist (Fin (2326 / 1000)) (Fin 2)\<rparr>)) = Fin 4
   \<and> self_gamma0 (example_object\<lparr>self_gamma0_distribution := NormDist (Fin (2326 / 1000)) (Fin 2)\<rparr>)
       = Fin (2326 / 1000)"
proof -
  note t = C3_gamma0_prior_and_start[OF example_init_wide_prior]
  have "gamma0_v (example_args\<lparr>gamma0_v := Fin 2\<rparr>) = Fin 2 \<and> (0::real) < 2
     \<and> norm_ppf example_env (fsub (Fin 1) (target_sparsity (example_args\<lparr>gamma0_v := Fin 2\<rparr>))) \<noteq> NaN"
    by (simp add: example_defs fsub_def)
  with t have "dist_var (self_gamma0_distribution
      (example_object\<lparr>self_gamma0_distribution := NormDist (Fin (2326 / 1000)) (Fin 2)\<rparr>)) = Fin (2 * 2)"
    by (elim conjE allE[where x=2]) simp
  moreover from t have "self_gamma0 (example_object\<lparr>self_gamma0_distribution := NormDist (Fin (2326 / 1000)) (Fin 2)\<rparr>)
       = dist_mean (NormDist (Fin (2326 / 1000)) (Fin 2))"
    by (elim conjE) simp
  ultimately show ?thesis by (simp add: norm_moments)
qed

subsection \<open>Whether xi is sampled\<close>

lemma sweeps_fixed_xi:
  assumes "\<not> self_sample_xi m"
  shows "self_xi (snd (sweeps E n m)) = self_xi m"
    "\<not> self_sample_xi (snd (sweeps E n m))"
    "update_parameters E (snd (sweeps E n m)) = sweep_without_xi E (snd (sweeps E n m))"
proof -
  have cs: "chain_step m (snd (sweeps E n m))" by (rule sweeps_chain_step[OF assms])
  show "self_xi (snd (sweeps E n m)) = self_xi m" by (rule chain_step_fields(1)[OF cs])
  show ns: "\<not> self_sample_xi (snd (sweeps E n m))"
    using chain_step_fields(2)[OF cs] assms by simp
  show "update_parameters E (snd (sweeps E n m)) = sweep_without_xi E (snd (sweeps E n m))"
    unfolding sweep_without_xi_def by (rule update_parameters_fixed_xi[OF ns])
qed

lemma init_xi:
  assumes "Probit_init E a r = (Inr m, r')"
  shows "self_sample_xi m = fst (xi_setup a)" "self_xi_distribution m = fst (snd (xi_setup a))"
    "self_xi m = snd (snd (xi_setup a))"
proof -
  from assms obtain R' ls ns m1 g where
    co: "caches_only (new_object E a R' ls ns r) m1"
    and m: "m = m1\<lparr>self_gamma := g, np_random := r'\<rparr>"
    by (rule Probit_init_caches_only)
  show "self_sample_xi m = fst (xi_setup a)"
    using caches_only_fields(6)[OF co] m by (simp add: new_object_def Let_def)
  show "self_xi_distribution m = fst (snd (xi_setup a))"
    using caches_only_fields(13)[OF co] m by (simp add: new_object_def Let_def)
  show "self_xi m = snd (snd (xi_setup a))"
    using caches_only_fields(5)[OF co] m by (simp add: new_object_def Let_def)
qed

text \<open>
  C10. The default of the argument xi is 0.999999. An object built with a value for xi
  does not sample it: \<open>sample_xi\<close> is false and xi is that value, and they stay so
  through any number of sweeps, every one of which is the four updates of gamma, gamma0,
  lambda and nu and no update of xi. An object built with \<open>xi=None\<close> samples xi,
  holds the beta prior of shape \<open>xi_prior_shape\<close> and starts xi at the mean of that
  prior, a / (a + b) for positive a and b.
\<close>

theorem C10_xi_sampled_only_when_None:
  assumes "Probit_init E a r = (Inr m, r')"
  shows "arg_xi (default_args X' Y' R') = Some (Fin (999999 / 1000000))
    \<and> self_sample_xi m = (arg_xi a = None)
    \<and> (\<forall>x. arg_xi a = Some x \<longrightarrow>
          (\<forall>n. self_xi (snd (sweeps E n m)) = x
             \<and> \<not> self_sample_xi (snd (sweeps E n m))
             \<and> update_parameters E (snd (sweeps E n m))
                 = sweep_without_xi E (snd (sweeps E n m))))
    \<and> (arg_xi a = None \<longrightarrow>
          self_xi_distribution m
             = Some (BetaDist (fst (xi_prior_shape a)) (snd (xi_prior_shape a)))
          \<and> self_xi m = dist_mean (BetaDist (fst (xi_prior_shape a)) (snd (xi_prior_shape a)))
          \<and> (\<forall>pa pb. xi_prior_shape a = (Fin pa, Fin pb) \<and> 0 < pa \<and> 0 < pb
                \<longrightarrow> self_xi m = Fin (pa / (pa + pb))))"
proof -
  note i = init_xi[OF assms]
  have 1: "arg_xi (default_args X' Y' R') = Some (Fin (999999 / 1000000))"
    by (simp add: default_args_def)
  have 2: "self_sample_xi m = (arg_xi a = None)"
    using i(1) by (simp add: xi_setup_def Let_def split: option.splits)
  have 3: "\<forall>x. arg_xi a = Some x \<longrightarrow>
          (\<forall>n. self_xi (snd (sweeps E n m)) = x
             \<and> \<not> self_sample_xi (snd (sweeps E n m))
             \<and> update_parameters E (snd (sweeps E n m))
                 = sweep_without_xi E (snd (sweeps E n m)))"
  proof (intro allI impI)
    fix x n assume x: "arg_xi a = Some x"
    then have ns: "\<not> self_sample_xi m" using 2 by simp
    have "self_xi m = x" using i(3) x by (simp add: xi_setup_def)
    with sweeps_fixed_xi[OF ns, of E n]
    show "self_xi (snd (sweeps E n m)) = x
             \<and> \<not> self_sample_xi (snd (sweeps E n m))
             \<and> update_parameters E (snd (sweeps E n m))
                 = sweep_without_xi E (snd (sweeps E n m))"
      by simp
  qed
  have 4: "arg_xi a = None \<longrightarrow>
          self_xi_distribution m
             = Some (BetaDist (fst (xi_prior_shape a)) (snd (xi_prior_shape a)))
          \<and> self_xi m = dist_mean (BetaDist (fst (xi_prior_shape a)) (snd (xi_prior_shape a)))
          \<and> (\<forall>pa pb. xi_prior_shape a = (Fin pa, Fin pb) \<and> 0 < pa \<and> 0 < pb
                \<longrightarrow> self_xi m = Fin (pa / (pa + pb)))"
    using i(2,3) by (auto simp: xi_setup_def Let_def beta_mean)
  from 1 2 3 4 show ?thesis by (intro conjI)
qed

lemma example_init_sampled:
  "\<exists>m. Probit_init example_env (example_args\<lparr>arg_xi := None\<rparr>) 0 = (Inr m, 1)"
  by (simp add: example_defs init_defs)

lemmas run_defs = and_then_def from_result_def update_parameters_def update_gamma_def
  update_gamma0_def update_lambda_def update_nu_def gamma_log_like_def gamma0_slice_fn_def
  lambda_slice_fn_def log_marg_like_def ppi_distribution_def new_ppi_distribution_def
  ppi_cov_def mask_columns_def select_def dot_transpose_def dot_rows_def fsum_def np_ones_def
  scalar_div_def fgt_def fge_def inf_of_sign_def

lemma py_hash_int_small: "py_hash_int 0 = 0" "py_hash_int 1 = 1"
  by (simp_all add: py_hash_int_def)

lemma example_sweep_1:
  "update_parameters example_env example_object = (Inr (), example_object_1)"
  by (simp add: example_defs init_defs run_defs example_object_def example_object_1_def
      py_hash_int_small)

lemma example_sweeps:
  "sweeps example_env 1 example_object = (Inr (), example_object_1)"
  by (simp add: and_then_def example_sweep_1)

theorem C10_xi_sampled_only_when_None_witness:
  "\<not> self_sample_xi example_object
   \<and> self_xi (snd (sweeps example_env 1 example_object)) = Fin (999999 / 1000000)
   \<and> fst (sweeps example_env 1 example_object) = Inr ()
   \<and> (\<exists>m. Probit_init example_env (example_args\<lparr>arg_xi := None\<rparr>) 0 = (Inr m, 1)
         \<and> self_sample_xi m \<and> self_xi m = Fin (1 / 2))"
proof -
  note t = C10_xi_sampled_only_when_None[OF example_object_init]
  have a: "arg_xi example_args = Some (Fin (999999 / 1000000))"
    by (simp add: example_args_def default_args_def)
  from t[THEN conjunct2, THEN conjunct1] a have 1: "\<not> self_sample_xi example_object" by simp
  from t[THEN conjunct2, THEN conjunct2, THEN conjunct1, rule_format, OF a, of 1]
  have 2: "self_xi (snd (sweeps example_env 1 example_object)) = Fin (999999 / 1000000)"
    by (rule conjunct1)
  from example_init_sampled obtain m where
    i: "Probit_init example_env (example_args\<lparr>arg_xi := None\<rparr>) 0 = (Inr m, 1)" by blast
  note u = C10_xi_sampled_only_when_None[OF i]
  have b: "arg_xi (example_args\<lparr>arg_xi := None\<rparr>) = None" by simp
  from u[THEN conjunct2, THEN conjunct1] b have 3: "self_sample_xi m" by simp
  have c: "xi_prior_shape (example_args\<lparr>arg_xi := None\<rparr>) = (Fin 1, Fin 1) \<and> (0::real) < 1 \<and> (0::real) < 1"
    by (simp add: example_args_def default_args_def)
  from u[THEN conjunct2, THEN conjunct2, THEN conjunct2, rule_format, OF b]
  have "\<forall>pa pb. xi_prior_shape (example_args\<lparr>arg_xi := None\<rparr>) = (Fin pa, Fin pb) \<and> 0 < pa \<and> 0 < pb
                \<longrightarrow> self_xi m = Fin (pa / (pa + pb))"
    by (elim conjE)
  from this[rule_format, OF c] have 4: "self_xi m = Fin (1 / 2)" by simp
  have "\<exists>m. Probit_init example_env (example_args\<lparr>arg_xi := None\<rparr>) 0 = (Inr m, 1)
         \<and> self_sample_xi m \<and> self_xi m = Fin (1 / 2)"
    using i 3 4 by (intro exI[of _ m]) simp
  with 1 2 example_sweeps show ?thesis by simp
qed

subsection \<open>The closed-form update of nu\<close>




lemma example_ppi:
  "ppi_distribution example_env (self_gamma example_object) (self_gamma0 example_object)
      (self_lamb example_object) example_object
   = (Inr [[Fin 2]],
      example_object\<lparr>self_ppi_cache := \<lparr>maxsize = 8, items = [(8, [[Fin 2]])]\<rparr>\<rparr>)"
  by (simp add: example_defs init_defs run_defs example_object_def py_hash_int_small)

subsection \<open>The cache key and the second call\<close>

lemma key_part_bytes: "arg_bytes a = arg_bytes b \<Longrightarrow> key_part H a = key_part H b"
  by (cases a; cases b) simp_all

lemma cache_key_bytes:
  "map arg_bytes args = map arg_bytes args' \<Longrightarrow> cache_key H args = cache_key H args'"
proof -
  assume v: "map arg_bytes args = map arg_bytes args'"
  have "map (key_part H) args = map (key_part H) args'"
    using v
  proof (induction args arbitrary: args')
    case Nil then show ?case by simp
  next
    case (Cons a as)
    then obtain b bs where b: "args' = b # bs" by (cases args') auto
    with Cons.prems have "arg_bytes a = arg_bytes b" "map arg_bytes as = map arg_bytes bs"
      by simp_all
    with Cons.IH[of bs] b show ?case by (simp add: key_part_bytes[of a b])
  qed
  then show ?thesis by (simp add: cache_key_def)
qed

lemma map_of_dict_set: "map_of (dict_set k v xs) k = Some v"
  by (induction xs) auto

lemma setitem_get: "Cache_setitem c k v = Inr c' \<Longrightarrow> Cache_getitem c' k = Some v"
  by (auto simp: Cache_setitem_def Cache_getitem_def Let_def map_of_dict_set split: if_splits)

lemma setitem_accepts: "0 < maxsize c \<Longrightarrow> \<exists>c'. Cache_setitem c k v = Inr c'"
  by (simp add: Cache_setitem_def Let_def)

lemma cachedmethod_stores:
  assumes "cachedmethod cache put k f m = (Inr d, m1)" "0 < maxsize (cache m)"
    and "\<And>c m. cache (put c m) = c"
  shows "Cache_getitem (cache m1) k = Some d"
proof (cases "Cache_getitem (cache m) k")
  case (Some v)
  with assms(1) show ?thesis by (simp add: cachedmethod_def)
next
  case None
  from setitem_accepts[OF assms(2)] obtain c' where c: "Cache_setitem (cache m) k d = Inr c'"
    by blast
  from None assms(1) c have "m1 = put c' m"
    by (auto simp: cachedmethod_def split: sum.splits)
  with setitem_get[OF c] assms(3) show ?thesis by simp
qed

lemma probit_distribution_again:
  assumes "probit_distribution E x m = (Inr d, m1)" "0 < maxsize (self_probit_cache m)"
  shows "probit_distribution (E\<lparr>Mvn_new := c\<rparr>) x m1 = (Inr d, m1)"
proof -
  have "Cache_getitem (self_probit_cache m1) (cache_key (hashes E) [ArgFloat x]) = Some d"
    using assms unfolding probit_distribution_def by (rule cachedmethod_stores) simp
  then show ?thesis by (simp add: probit_distribution_def cachedmethod_hit)
qed

lemma ppi_distribution_again:
  assumes "ppi_distribution E g g0 l m = (Inr d, m1)" "0 < maxsize (self_ppi_cache m)"
    and "raw g' = raw g"
  shows "ppi_distribution (E\<lparr>Mvn_new := c\<rparr>) g' g0 l m1 = (Inr d, m1)"
proof -
  have "Cache_getitem (self_ppi_cache m1)
          (cache_key (hashes E) [ArgArray g, ArgFloat g0, ArgFloat l]) = Some d"
    using assms(1,2) unfolding ppi_distribution_def by (rule cachedmethod_stores) simp
  moreover have "cache_key (hashes E) [ArgArray g', ArgFloat g0, ArgFloat l]
     = cache_key (hashes E) [ArgArray g, ArgFloat g0, ArgFloat l]"
    using assms(3) by (intro cache_key_bytes) simp
  ultimately show ?thesis by (simp add: ppi_distribution_def cachedmethod_hit)
qed

text \<open>
  C9, as the code has it. The key of a call is the tuple hash of the hash of the bytes of
  each array argument and of the hash of each float argument: the bytes of an array enter
  it, its identity does not, and its values only through the bytes. Argument lists that
  agree in the bytes of the arrays and in the floats have one key. When a call of
  \<open>probit_distribution\<close> or \<open>ppi_distribution\<close> has returned a distribution, the
  next call with such arguments returns that distribution and leaves the object as it
  is, whatever the constructor of \<open>Mvn\<close> would do: it is not called. The capacity of
  the cache is positive, as it is for the caches of the constructor.
\<close>

theorem C9_key_of_bytes_and_cached_result:
  assumes "map arg_bytes args = map arg_bytes args'"
    and "raw g' = raw g"
    and "0 < maxsize (self_probit_cache m)" and "0 < maxsize (self_ppi_cache m)"
  shows "cache_key H args = cache_key H args'
    \<and> cache_key H [ArgFloat x] = hash_tuple H [py_hash_float H x]
    \<and> cache_key H [ArgArray g, ArgFloat g0, ArgFloat l]
        = hash_tuple H [py_hash_int (hash_bytes H (raw g)), py_hash_float H g0,
            py_hash_float H l]
    \<and> cache_key H [ArgArray g', ArgFloat g0, ArgFloat l]
        = cache_key H [ArgArray g, ArgFloat g0, ArgFloat l]
    \<and> (\<forall>d m1 c. probit_distribution E x m = (Inr d, m1)
          \<longrightarrow> probit_distribution (E\<lparr>Mvn_new := c\<rparr>) x m1 = (Inr d, m1))
    \<and> (\<forall>d m1 c. ppi_distribution E g g0 l m = (Inr d, m1)
          \<longrightarrow> ppi_distribution (E\<lparr>Mvn_new := c\<rparr>) g' g0 l m1 = (Inr d, m1))"
proof -
  have 1: "cache_key H args = cache_key H args'" by (rule cache_key_bytes[OF assms(1)])
  have 2: "cache_key H [ArgFloat x] = hash_tuple H [py_hash_float H x]"
    by (simp add: cache_key_def)
  have 3: "cache_key H [ArgArray g, ArgFloat g0, ArgFloat l]
        = hash_tuple H [py_hash_int (hash_bytes H (raw g)), py_hash_float H g0,
            py_hash_float H l]"
    by (simp add: cache_key_def)
  have 4: "cache_key H [ArgArray g', ArgFloat g0, ArgFloat l]
        = cache_key H [ArgArray g, ArgFloat g0, ArgFloat l]"
    using assms(2) by (intro cache_key_bytes) simp
  have 5: "\<forall>d m1 c. probit_distribution E x m = (Inr d, m1)
          \<longrightarrow> probit_distribution (E\<lparr>Mvn_new := c\<rparr>) x m1 = (Inr d, m1)"
    using probit_distribution_again[OF _ assms(3)] by blast
  have 6: "\<forall>d m1 c. ppi_distribution E g g0 l m = (Inr d, m1)
          \<longrightarrow> ppi_distribution (E\<lparr>Mvn_new := c\<rparr>) g' g0 l m1 = (Inr d, m1)"
    using ppi_distribution_again[OF _ assms(4,2)] by blast
  from 1 2 3 4 5 6 show ?thesis by (intro conjI)
qed

theorem C9_key_of_bytes_and_cached_result_witness:
  "cache_key example_hashing [ArgArray (NdArray 5 [0] [Fin 0, Fin 0]), ArgFloat (Fin 1)]
     = cache_key example_hashing [ArgArray (example_array 0 [Fin 0]), ArgFloat (Fin 1)]
   \<and> cache_key example_hashing
        [ArgArray (example_array 0 [Fin 0]), ArgFloat (Fin (2326 / 1000)), ArgFloat (Fin 1)] = 8
   \<and> ppi_distribution (example_env\<lparr>Mvn_new := (\<lambda>c e j. Inl LinAlgError)\<rparr>)
        (NdArray 5 [0] [Fin 0, Fin 0]) (self_gamma0 example_object) (self_lamb example_object)
        (example_object\<lparr>self_ppi_cache := \<lparr>maxsize = 8, items = [(8, [[Fin 2]])]\<rparr>\<rparr>)
      = (Inr [[Fin 2]],
         example_object\<lparr>self_ppi_cache := \<lparr>maxsize = 8, items = [(8, [[Fin 2]])]\<rparr>\<rparr>)"
proof -
  have a: "map arg_bytes [ArgArray (NdArray 5 [0] [Fin 0, Fin 0]), ArgFloat (Fin 1)]
     = map arg_bytes [ArgArray (example_array 0 [Fin 0]), ArgFloat (Fin 1)]"
    by (simp add: example_array_def example_bytes_def)
  have b: "raw (NdArray 5 [0] [Fin 0, Fin 0]) = raw (self_gamma example_object)"
    by (simp add: example_object_def example_array_def example_bytes_def)
  have c: "0 < maxsize (self_probit_cache example_object)"
     "0 < maxsize (self_ppi_cache example_object)"
    by (simp_all add: example_object_def)
  note t = C9_key_of_bytes_and_cached_result[OF a b c,
      where H=example_hashing and E=example_env and ?g0.0="self_gamma0 example_object"
        and l="self_lamb example_object"]
  have k: "hash_tuple example_hashing
        [py_hash_int (hash_bytes example_hashing (raw (self_gamma example_object))),
         py_hash_float example_hashing (self_gamma0 example_object),
         py_hash_float example_hashing (self_lamb example_object)] = 8"
    by (simp add: example_defs example_object_def py_hash_float_def py_hash_int_small)
  have g: "self_gamma example_object = example_array 0 [Fin 0]"
      "self_gamma0 example_object = Fin (2326 / 1000)" "self_lamb example_object = Fin 1"
    by (simp_all add: example_object_def)
  from t[THEN conjunct2, THEN conjunct2, THEN conjunct2, THEN conjunct2, THEN conjunct2,
        rule_format, OF example_ppi]
    t[THEN conjunct1] t[THEN conjunct2, THEN conjunct2, THEN conjunct1] k g
  show ?thesis by simp
qed

text \<open>
  The claim as the specification words it fails for arrays that are equal in value and
  differ in their bytes: \<open>[0.0]\<close> and \<open>[-0.0]\<close> compare equal, their keys differ,
  and the call with the second array after a call with the first one does not find the
  entry: it calls the constructor of \<open>Mvn\<close>, whose exception it raises here.
\<close>

theorem C9_equal_values_other_bytes_counterexample:
  "map arg_value [ArgArray example_minus_zero, ArgFloat (Fin (2326 / 1000)), ArgFloat (Fin 1)]
     = map arg_value
         [ArgArray (example_array 0 [Fin 0]), ArgFloat (Fin (2326 / 1000)), ArgFloat (Fin 1)]
   \<and> cache_key example_hashing
        [ArgArray example_minus_zero, ArgFloat (Fin (2326 / 1000)), ArgFloat (Fin 1)]
     \<noteq> cache_key example_hashing
        [ArgArray (example_array 0 [Fin 0]), ArgFloat (Fin (2326 / 1000)), ArgFloat (Fin 1)]
   \<and> ppi_distribution example_env (example_array 0 [Fin 0]) (Fin (2326 / 1000)) (Fin 1)
        example_object
      = (Inr [[Fin 2]],
         example_object\<lparr>self_ppi_cache := \<lparr>maxsize = 8, items = [(8, [[Fin 2]])]\<rparr>\<rparr>)
   \<and> ppi_distribution (example_env\<lparr>Mvn_new := (\<lambda>c e j. Inl LinAlgError)\<rparr>)
        example_minus_zero (Fin (2326 / 1000)) (Fin 1)
        (example_object\<lparr>self_ppi_cache := \<lparr>maxsize = 8, items = [(8, [[Fin 2]])]\<rparr>\<rparr>)
      = (Inl LinAlgError,
         example_object\<lparr>self_ppi_cache := \<lparr>maxsize = 8, items = [(8, [[Fin 2]])]\<rparr>\<rparr>)
   \<and> ppi_distribution example_env example_minus_zero (Fin (2326 / 1000)) (Fin 1)
        (example_object\<lparr>self_ppi_cache := \<lparr>maxsize = 8, items = [(8, [[Fin 2]])]\<rparr>\<rparr>)
      = (Inr [[Fin 2]],
         example_object\<lparr>self_ppi_cache :=
           \<lparr>maxsize = 8, items = [(8, [[Fin 2]]), (136, [[Fin 2]])]\<rparr>\<rparr>)"
  by (simp add: example_defs init_defs run_defs example_object_def example_minus_zero_def
      py_hash_int_small py_hash_int_def)

subsection \<open>The candidate log-density of lambda\<close>

text \<open>
  C4. The closure of \<open>update_lambda\<close> returns minus infinity for a negative candidate
  and, for every other one, the marginal log-likelihood at the candidate plus the
  log-density of lambda's gamma prior. Its guard is \<open>lamb < 0\<close>: the candidate 0 is not
  rejected. There the closure divides the N x N matrix by zero and builds a distribution
  from a matrix of infinities; in the small instance, whose constructor refuses such a
  matrix, the closure raises.
\<close>

theorem C4_lambda_closure_guard:
  "lambda_slice_fn E (Fin x) m =
     (if x < 0 then (Inr NInf, m)
      else and_then (log_marg_like E (self_gamma m) (self_gamma0 m) (Fin x) (self_nu m))
             (\<lambda>l m'. (Inr (fadd l (logpdf E (self_lambda_distribution m') (Fin x))), m')) m)
   \<and> lambda_slice_fn E NInf m = (Inr NInf, m)
   \<and> ppi_cov example_object (self_gamma example_object) (self_gamma0 example_object) (Fin 0)
       = Inr [[PInf]]
   \<and> lambda_slice_fn example_env (Fin 0) example_object = (Inl ValueError, example_object)"
proof -
  have 1: "lambda_slice_fn E (Fin x) m =
     (if x < 0 then (Inr NInf, m)
      else and_then (log_marg_like E (self_gamma m) (self_gamma0 m) (Fin x) (self_nu m))
             (\<lambda>l m'. (Inr (fadd l (logpdf E (self_lambda_distribution m') (Fin x))), m')) m)"
    by (simp add: lambda_slice_fn_def)
  have 2: "lambda_slice_fn E NInf m = (Inr NInf, m)" by (simp add: lambda_slice_fn_def)
  have 3: "ppi_cov example_object (self_gamma example_object) (self_gamma0 example_object) (Fin 0)
       = Inr [[PInf]]"
    by (simp add: example_defs init_defs run_defs example_object_def)
  have 4: "lambda_slice_fn example_env (Fin 0) example_object = (Inl ValueError, example_object)"
    by (simp add: example_defs init_defs run_defs example_object_def py_hash_int_small)
  from 1 2 3 4 show ?thesis by (intro conjI)
qed

subsection \<open>The marginal log-likelihood\<close>








subsection \<open>The update of xi\<close>

lemma update_xi_accepted:
  assumes "probit_distribution E (self_xi m) m = (Inr d, m1)"
    and "Mvn_whiten E d (self_gamma m) = Inr w"
    and "run_prog (xi_slice_fn E w) (SliceSampler_one E (self_xi m)) m1 = (Inr x, m2)"
  shows "update_xi E m =
           (case recorrelate E x w (m2\<lparr>self_xi := x\<rparr>) of
              (Inl e, m3) \<Rightarrow> (Inl e, m3)
            | (Inr g, m3) \<Rightarrow> (Inr (), m3\<lparr>self_gamma := g\<rparr>))"
proof -
  have co: "caches_only m m1"
    using probit_distribution_caches_only[of m E "self_xi m"] assms(1) by simp
  note f = caches_only_fields[OF co]
  show ?thesis
    using assms by (simp add: update_xi_def and_then_def f split: prod.splits sum.splits)
qed

subsection \<open>The loop of the chain\<close>

lemma fill_Nil: "fill k [] xs = xs"
  by (simp add: fill_def)

lemma fill_Cons: "k < length xs \<Longrightarrow> fill (Suc k) vs (xs[k := v]) = fill k (v # vs) xs"
  by (simp add: fill_def take_Suc_conv_app_nth)

lemma fill_all: "length vs = length xs \<Longrightarrow> fill 0 vs xs = vs"
  by (simp add: fill_def)

lemma mcmc_step_observe:
  "mcmc_step E detailed i t =
     and_then (observe E)
       (\<lambda>ob m. (record_sweep detailed i (joint_before ob) (like_before ob) (after ob) t, m))"
  by (rule ext)
     (simp add: mcmc_step_def observe_def and_then_def split: prod.splits sum.splits)

lemma observe_after:
  "observe E m = (Inr ob, m') \<Longrightarrow> after ob = m'"
  by (auto simp: observe_def and_then_def split: prod.splits sum.splits)

lemma burn_in_loop:
  assumes "list_all (\<lambda>i. i < 0) js"
  shows "mcmc_loop E detailed js t m =
           (case chain E (length js) m of
              (Inl e, m') \<Rightarrow> (Inl e, m')
            | (Inr obs, m') \<Rightarrow> (Inr t, m'))"
  using assms
proof (induction js arbitrary: m)
  case Nil show ?case by simp
next
  case (Cons j js)
  then have j: "j < 0" and js: "list_all (\<lambda>i. i < 0) js" by simp_all
  have rs: "\<And>lj ll s. record_sweep detailed j lj ll s t = Inr t"
    using j by (simp add: record_sweep_def)
  show ?case
  proof (cases "observe E m")
    case (Pair r m1)
    show ?thesis
    proof (cases r)
      case (Inl e) with Pair show ?thesis by (simp add: mcmc_step_observe and_then_def)
    next
      case (Inr ob)
      with Pair Cons.IH[OF js, of m1] show ?thesis
        by (simp add: mcmc_step_observe and_then_def rs split: prod.splits sum.splits)
    qed
  qed
qed

lemma record_sweep_kept:
  assumes "detailed \<Longrightarrow> full_gamma ob" "Suc k \<le> length (logjoint_trace t)"
  shows "record_sweep detailed (int k) (joint_before ob) (like_before ob) (after ob) t
           = Inr (if detailed then
                t\<lparr>logjoint_trace := (logjoint_trace t)[k := joint_before ob],
                  inclusion_trace := (inclusion_trace t)[k := inclusion_of (after ob)],
                  gamma0_trace := (gamma0_trace t)[k := self_gamma0 (after ob)],
                  lambda_trace := (lambda_trace t)[k := self_lamb (after ob)],
                  nu_trace := (nu_trace t)[k := self_nu (after ob)],
                  xi_trace := (xi_trace t)[k := self_xi (after ob)],
                  loglike_trace := (loglike_trace t)[k := like_before ob]\<rparr>
              else t\<lparr>logjoint_trace := (logjoint_trace t)[k := joint_before ob]\<rparr>)"
  using assms
  by (cases detailed)
     (simp_all add: record_sweep_def Let_def assign_row_def inclusion_of_def full_gamma_def)

lemma recorded_step:
  assumes "room detailed (Suc k) t"
  shows "recorded detailed (Suc k) obs
           (if detailed then
                t\<lparr>logjoint_trace := (logjoint_trace t)[k := joint_before ob],
                  inclusion_trace := (inclusion_trace t)[k := inclusion_of (after ob)],
                  gamma0_trace := (gamma0_trace t)[k := self_gamma0 (after ob)],
                  lambda_trace := (lambda_trace t)[k := self_lamb (after ob)],
                  nu_trace := (nu_trace t)[k := self_nu (after ob)],
                  xi_trace := (xi_trace t)[k := self_xi (after ob)],
                  loglike_trace := (loglike_trace t)[k := like_before ob]\<rparr>
              else t\<lparr>logjoint_trace := (logjoint_trace t)[k := joint_before ob]\<rparr>)
         = recorded detailed k (ob # obs) t"
  using assms by (cases detailed) (simp_all add: recorded_def room_def fill_Cons)

lemma room_step:
  assumes "room detailed n t"
  shows "room detailed n
           (if detailed then
                t\<lparr>logjoint_trace := (logjoint_trace t)[k := a],
                  inclusion_trace := (inclusion_trace t)[k := b],
                  gamma0_trace := (gamma0_trace t)[k := c],
                  lambda_trace := (lambda_trace t)[k := d],
                  nu_trace := (nu_trace t)[k := e],
                  xi_trace := (xi_trace t)[k := f],
                  loglike_trace := (loglike_trace t)[k := g]\<rparr>
              else t\<lparr>logjoint_trace := (logjoint_trace t)[k := a]\<rparr>)"
  using assms by (cases detailed) (simp_all add: room_def)

lemma room_less: "room detailed (Suc n) t \<Longrightarrow> Suc n \<le> length (logjoint_trace t)"
  by (simp add: room_def)

lemma chain_Suc_success:
  assumes "chain E (Suc n) m = (Inr obs, m')"
  obtains ob m1 rest where "observe E m = (Inr ob, m1)" "chain E n m1 = (Inr rest, m')"
    "obs = ob # rest"
  using assms by (auto simp: and_then_def split: prod.splits sum.splits)

lemma kept_loop:
  assumes "chain E n m = (Inr obs, m')" "room detailed (k + n) t"
    and "detailed \<Longrightarrow> list_all full_gamma obs"
  shows "mcmc_loop E detailed [int k..int k + int n - 1] t m
           = (Inr (recorded detailed k obs t), m')"
  using assms
proof (induction n arbitrary: k t m obs)
  case 0
  then show ?case by (cases detailed) (simp_all add: recorded_def fill_Nil)
next
  case (Suc n)
  from Suc.prems(1) obtain ob m1 rest where
    o: "observe E m = (Inr ob, m1)" and c: "chain E n m1 = (Inr rest, m')"
    and obs: "obs = ob # rest"
    by (rule chain_Suc_success)
  have fg: "detailed \<Longrightarrow> full_gamma ob" "detailed \<Longrightarrow> list_all full_gamma rest"
    using Suc.prems(3) obs by simp_all
  have r1: "room detailed (Suc k) t" using Suc.prems(2) by (auto simp: room_def split: if_splits)
  define t1 where "t1 = (if detailed then
                t\<lparr>logjoint_trace := (logjoint_trace t)[k := joint_before ob],
                  inclusion_trace := (inclusion_trace t)[k := inclusion_of (after ob)],
                  gamma0_trace := (gamma0_trace t)[k := self_gamma0 (after ob)],
                  lambda_trace := (lambda_trace t)[k := self_lamb (after ob)],
                  nu_trace := (nu_trace t)[k := self_nu (after ob)],
                  xi_trace := (xi_trace t)[k := self_xi (after ob)],
                  loglike_trace := (loglike_trace t)[k := like_before ob]\<rparr>
              else t\<lparr>logjoint_trace := (logjoint_trace t)[k := joint_before ob]\<rparr>)"
  have rs: "record_sweep detailed (int k) (joint_before ob) (like_before ob) (after ob) t = Inr t1"
    unfolding t1_def by (rule record_sweep_kept[OF fg(1) room_less[OF r1]])
  have room1: "room detailed (Suc k + n) t1"
    unfolding t1_def using Suc.prems(2) by (intro room_step) simp
  have rec: "recorded detailed (Suc k) rest t1 = recorded detailed k obs t"
    unfolding t1_def obs by (rule recorded_step[OF r1])
  have up: "[int k..int k + int (Suc n) - 1] = int k # [int (Suc k)..int (Suc k) + int n - 1]"
    by (subst upto.simps) (simp add: add.commute add.left_commute)
  have step: "mcmc_step E detailed (int k) t m = (Inr t1, m1)"
    using o rs by (simp add: mcmc_step_observe and_then_def)
  have "mcmc_loop E detailed (int k # js) t m = mcmc_loop E detailed js t1 m1" for js
    using step by (simp add: and_then_def)
  with Suc.IH[OF c room1 fg(2)] rec show ?case by (simp only: up)
qed

lemma chain_length: "chain E n m = (Inr obs, m') \<Longrightarrow> length obs = n"
proof (induction n arbitrary: m obs)
  case 0 then show ?case by simp
next
  case (Suc n)
  from Suc.prems obtain ob m1 rest where
    "chain E n m1 = (Inr rest, m')" "obs = ob # rest" by (rule chain_Suc_success)
  with Suc.IH show ?case by simp
qed

lemma chain_add:
  assumes "chain E (a + b) m = (Inr obs, m')"
  shows "\<exists>m1. chain E a m = (Inr (take a obs), m1) \<and> chain E b m1 = (Inr (drop a obs), m')"
  using assms
proof (induction a arbitrary: m obs)
  case 0 then show ?case by simp
next
  case (Suc a)
  from Suc.prems have "chain E (Suc (a + b)) m = (Inr obs, m')" by simp
  then obtain ob m1 rest where
    o: "observe E m = (Inr ob, m1)" and c: "chain E (a + b) m1 = (Inr rest, m')"
    and obs: "obs = ob # rest" by (rule chain_Suc_success)
  from Suc.IH[OF c] obtain m2 where
    "chain E a m1 = (Inr (take a rest), m2)" "chain E b m2 = (Inr (drop a rest), m')" by blast
  with o obs show ?case by (simp add: and_then_def)
qed

lemma mcmc_loop_append:
  "mcmc_loop E detailed (xs @ ys) t m =
     (case mcmc_loop E detailed xs t m of
        (Inl e, m1) \<Rightarrow> (Inl e, m1)
      | (Inr t1, m1) \<Rightarrow> mcmc_loop E detailed ys t1 m1)"
proof (induction xs arbitrary: t m)
  case Nil show ?case by simp
next
  case (Cons x xs)
  show ?case
    by (cases "mcmc_step E detailed x t m")
       (auto simp: and_then_def Cons.IH split: sum.splits prod.splits)
qed

lemma burn_in_indices:
  "0 \<le> b \<Longrightarrow> list_all (\<lambda>i. i < 0) [- b..- 1] \<and> length [- b..- 1] = nat b"
  by (simp add: list_all_iff)

lemma range_split:
  assumes "0 \<le> iters" "0 \<le> burn_in"
  shows "[- burn_in..iters - 1] = [- burn_in..- 1] @ [int 0..int 0 + int (nat iters) - 1]"
proof (cases "burn_in = 0")
  case True with assms show ?thesis by simp
next
  case False
  with assms upto_split2[of "- burn_in" "- 1" "iters - 1"] show ?thesis by simp
qed

subsection \<open>The greatest entry\<close>

lemma fle_total: "x \<noteq> NaN \<Longrightarrow> y \<noteq> NaN \<Longrightarrow> \<not> fle x y \<Longrightarrow> fle y x"
  by (cases x; cases y) simp_all

lemma fle_refl: "x \<noteq> NaN \<Longrightarrow> fle x x"
  by (cases x) simp_all

lemma fle_trans: "fle x y \<Longrightarrow> fle y z \<Longrightarrow> fle x z"
  by (cases x; cases y; cases z) simp_all

lemma argmax_from_greatest:
  assumes "all = pre @ xs" "length pre = i" "best < i" "all ! best = mp" "mp \<noteq> NaN"
    and "list_all (\<lambda>x. x \<noteq> NaN) xs" and "\<forall>j<i. fle (all ! j) mp"
  shows "argmax_from mp best i xs < length all
    \<and> (\<forall>j<length all. fle (all ! j) (all ! argmax_from mp best i xs))"
  using assms
proof (induction xs arbitrary: pre i best mp)
  case Nil then show ?case by simp
next
  case (Cons x xs)
  have x: "x \<noteq> NaN" "list_all (\<lambda>x. x \<noteq> NaN) xs" using Cons.prems(6) by simp_all
  have all: "all = (pre @ [x]) @ xs" "length (pre @ [x]) = Suc i" "all ! i = x"
    using Cons.prems(1,2) by (simp_all add: nth_append)
  show ?case
  proof (cases "fle x mp")
    case True
    have "\<forall>j<Suc i. fle (all ! j) mp"
      using Cons.prems(7) True all(3) by (auto simp: less_Suc_eq)
    from Cons.IH[OF all(1,2) _ Cons.prems(4,5) x(2) this] Cons.prems(3,5) True
    show ?thesis by simp
  next
    case False
    then have mx: "fle mp x" using fle_total[OF x(1) Cons.prems(5)] by simp
    have "\<forall>j<Suc i. fle (all ! j) x"
      using Cons.prems(7) mx all(3) fle_refl[OF x(1)] by (auto simp: less_Suc_eq intro: fle_trans)
    from Cons.IH[OF all(1,2) _ all(3) x(1) x(2) this] Cons.prems(5) False
    show ?thesis by simp
  qed
qed

lemma np_argmax_greatest:
  assumes "xs \<noteq> []" "list_all (\<lambda>x. x \<noteq> NaN) xs"
  shows "\<exists>k<length xs. np_argmax xs = Inr k \<and> (\<forall>j<length xs. fle (xs ! j) (xs ! k))"
proof -
  from assms(1) obtain x rest where xs: "xs = x # rest" by (cases xs) auto
  with assms(2) have x: "x \<noteq> NaN" "list_all (\<lambda>x. x \<noteq> NaN) rest" by simp_all
  have "argmax_from x 0 1 rest < length xs
    \<and> (\<forall>j<length xs. fle (xs ! j) (xs ! argmax_from x 0 1 rest))"
    by (rule argmax_from_greatest[where pre="[x]"]) (use xs x fle_refl in simp_all)
  then show ?thesis by (simp add: np_argmax_def xs)
qed

lemma argmax_from_bound: "best < i \<Longrightarrow> argmax_from mp best i xs < i + length xs"
proof (induction xs arbitrary: mp best i)
  case Nil then show ?case by simp
next
  case (Cons x xs)
  from Cons.IH[of i "Suc i" x] Cons.IH[of best "Suc i" mp] Cons.prems
  show ?case by auto
qed

lemma np_argmax_bound: "np_argmax xs = Inr k \<Longrightarrow> k < length xs"
  using argmax_from_bound[of 0 1]
  by (cases xs) (auto simp: np_argmax_def)

lemma np_argmax_nonempty: "xs \<noteq> [] \<Longrightarrow> \<exists>k. np_argmax xs = Inr k"
  by (cases xs) (simp_all add: np_argmax_def)

subsection \<open>The run\<close>

lemma new_traces_room:
  assumes "0 \<le> iters"
  shows "\<exists>t0. new_traces detailed iters p = Inr t0 \<and> room detailed (nat iters) t0
     \<and> length (logjoint_trace t0) = nat iters
     \<and> (detailed \<longrightarrow> length (inclusion_trace t0) = nat iters
            \<and> length (gamma0_trace t0) = nat iters \<and> length (lambda_trace t0) = nat iters
            \<and> length (nu_trace t0) = nat iters \<and> length (xi_trace t0) = nat iters
            \<and> length (loglike_trace t0) = nat iters)"
  using assms by (cases detailed) (simp_all add: new_traces_def np_zeros_def room_def)

lemma result_of_recorded:
  assumes "length kept = n" "length (logjoint_trace t0) = n"
    and "detailed \<Longrightarrow> 0 < n \<and> length (inclusion_trace t0) = n
            \<and> length (gamma0_trace t0) = n \<and> length (lambda_trace t0) = n
            \<and> length (nu_trace t0) = n \<and> length (xi_trace t0) = n
            \<and> length (loglike_trace t0) = n"
  shows "mcmc_result_of detailed p (recorded detailed 0 kept t0) = Inr (run_result detailed p kept)"
proof (cases detailed)
  case False
  with assms(1,2) show ?thesis
    by (simp add: mcmc_result_of_def recorded_def run_result_def fill_all)
next
  case True
  with assms(3) have n: "0 < n" by simp
  with assms(1) have "map joint_before kept \<noteq> []" by auto
  from np_argmax_nonempty[OF this] obtain k where k: "np_argmax (map joint_before kept) = Inr k"
    by blast
  from np_argmax_bound[OF k] have "k < length kept" by simp
  with True assms k show ?thesis
    by (simp add: mcmc_result_of_def recorded_def run_result_def fill_all detailed_of_def
        map_index_def)
qed

lemmas obs_defs = observe_def log_joint_def xi_logpdf_def

subsection \<open>Successful steps\<close>

lemma and_then_Inr:
  assumes "and_then act f m = (Inr r, m')"
  obtains a m1 where "act m = (Inr a, m1)" "f a m1 = (Inr r, m')"
  using assms by (auto simp: and_then_def split: prod.splits sum.splits)

subsection \<open>The update of nu and a stale entry\<close>







subsection \<open>The update of xi and a stale entry\<close>

lemma xi_guard:
  "(fle c (Fin 0) \<or> fge c (Fin 1))
     = (c = NInf \<or> c = PInf \<or> (\<exists>v. c = Fin v \<and> (v \<le> 0 \<or> 1 \<le> v)))"
  by (cases c) (auto simp: fge_def)

lemma xi_slice_fn_no_distribution:
  assumes "\<not> (fle c (Fin 0) \<or> fge c (Fin 1))" "probit_distribution E c m = (Inl e, m')"
  shows "xi_slice_fn E w c m = (if e = LinAlgError then (Inr NInf, m') else (Inl e, m'))"
  using assms by (cases e) (simp_all add: xi_slice_fn_def recorrelate_def and_then_def)

lemma xi_slice_fn_no_correlate:
  assumes "\<not> (fle c (Fin 0) \<or> fge c (Fin 1))" "probit_distribution E c m = (Inr d, m')"
    and "Mvn_correlate E d w = Inl e"
  shows "xi_slice_fn E w c m = (if e = LinAlgError then (Inr NInf, m') else (Inl e, m'))"
  using assms by (cases e) (simp_all add: xi_slice_fn_def recorrelate_def and_then_def)

lemma xi_slice_fn_correlated:
  assumes "\<not> (fle c (Fin 0) \<or> fge c (Fin 1))" "probit_distribution E c m = (Inr d, m')"
    and "Mvn_correlate E d w = Inr g"
  shows "xi_slice_fn E w c m =
           and_then (log_marg_like E g (self_gamma0 m') (self_lamb m') (self_nu m'))
             (\<lambda>l. and_then (xi_logpdf E c) (\<lambda>lx m''. (Inr (fadd l lx), m''))) m'"
  using assms by (simp add: xi_slice_fn_def recorrelate_def and_then_def)

lemma update_xi_result:
  assumes "probit_distribution E (self_xi m) m = (Inr d, m1)"
    and "Mvn_whiten E d (self_gamma m) = Inr w"
    and "run_prog (xi_slice_fn E w) (SliceSampler_one E (self_xi m)) m1 = (Inr x, m2)"
  shows "update_xi E m =
           (case probit_distribution E x (m2\<lparr>self_xi := x\<rparr>) of
              (Inl e, m3) \<Rightarrow> (Inl e, m3)
            | (Inr dx, m3) \<Rightarrow>
                (case Mvn_correlate E dx w of
                   Inl e \<Rightarrow> (Inl e, m3)
                 | Inr g \<Rightarrow> (Inr (), m3\<lparr>self_gamma := g\<rparr>)))"
proof -
  obtain r m3 where p: "probit_distribution E x (m2\<lparr>self_xi := x\<rparr>) = (r, m3)"
    by (cases "probit_distribution E x (m2\<lparr>self_xi := x\<rparr>)")
  show ?thesis
  proof (cases r)
    case (Inl e)
    with p update_xi_accepted[OF assms] show ?thesis
      by (simp add: recorrelate_def and_then_def)
  next
    case (Inr dx)
    with p update_xi_accepted[OF assms] show ?thesis
      by (cases "Mvn_correlate E dx w") (simp_all add: recorrelate_def and_then_def)
  qed
qed

lemma probit_distribution_miss_cov:
  assumes "Cache_getitem (self_probit_cache m) (cache_key (hashes E) [ArgFloat c]) = None"
    and "probit_distribution E c m = (Inr d, m')"
  shows "\<exists>cov. probit_cov E m c = Inr cov \<and> Mvn_new E cov None None = Inr d"
  using assms
  by (auto simp: probit_distribution_def cachedmethod_def new_probit_distribution_def
      split: sum.splits)

lemma probit_distribution_stale:
  assumes "probit_distribution E c' m0 = (Inr d, m)" "0 < maxsize (self_probit_cache m0)"
    and "py_hash_float (hashes E) c = py_hash_float (hashes E) c'"
  shows "probit_distribution E c m = (Inr d, m)"
proof -
  have "Cache_getitem (self_probit_cache m) (cache_key (hashes E) [ArgFloat c']) = Some d"
    using assms(1,2) unfolding probit_distribution_def by (rule cachedmethod_stores) simp
  moreover have "cache_key (hashes E) [ArgFloat c] = cache_key (hashes E) [ArgFloat c']"
    using assms(3) by (simp add: cache_key_def)
  ultimately show ?thesis by (simp add: probit_distribution_def cachedmethod_hit)
qed

text \<open>
  C6. The closure of \<open>update_xi\<close> returns minus infinity, and leaves the object as it
  is, for every candidate at or below 0 and at or above 1, the infinities among them; a
  NaN passes the guard. For a candidate that passes, the closure takes the probit
  distribution of the candidate from \<open>probit_distribution\<close> and correlates the whitened
  gamma under it: a \<open>LinAlgError\<close> of either step becomes minus infinity, another
  exception is raised, and otherwise the value is the marginal log-likelihood of the
  correlated gamma plus the prior log-density of the candidate. When the sampler returns
  a value x, xi is set to x and gamma to the whitened gamma correlated under the
  distribution that \<open>probit_distribution\<close> returns for x. On a cache miss that
  distribution is built from the covariance x * R.cov + (1 - x) * I. It is not so for
  every candidate: the key is the hash of the tuple of the argument, and a candidate
  whose hash is the hash of an earlier argument, as 2^-62 and 0.5 are in CPython, gets
  the distribution of the earlier argument.
\<close>

theorem C6_update_xi_stale_distribution:
  assumes "probit_distribution E (self_xi m) m = (Inr d, m1)"
    and "Mvn_whiten E d (self_gamma m) = Inr w"
    and "run_prog (xi_slice_fn E w) (SliceSampler_one E (self_xi m)) m1 = (Inr x, m2)"
  shows "(\<forall>c w' n. fle c (Fin 0) \<or> fge c (Fin 1) \<longrightarrow> xi_slice_fn E w' c n = (Inr NInf, n))
    \<and> (\<forall>c. (fle c (Fin 0) \<or> fge c (Fin 1))
          = (c = NInf \<or> c = PInf \<or> (\<exists>v. c = Fin v \<and> (v \<le> 0 \<or> 1 \<le> v))))
    \<and> (\<forall>c w' n e n'. \<not> (fle c (Fin 0) \<or> fge c (Fin 1))
          \<and> probit_distribution E c n = (Inl e, n')
          \<longrightarrow> xi_slice_fn E w' c n
                = (if e = LinAlgError then (Inr NInf, n') else (Inl e, n')))
    \<and> (\<forall>c w' n dc e n'. \<not> (fle c (Fin 0) \<or> fge c (Fin 1))
          \<and> probit_distribution E c n = (Inr dc, n') \<and> Mvn_correlate E dc w' = Inl e
          \<longrightarrow> xi_slice_fn E w' c n
                = (if e = LinAlgError then (Inr NInf, n') else (Inl e, n')))
    \<and> (\<forall>c w' n dc g n'. \<not> (fle c (Fin 0) \<or> fge c (Fin 1))
          \<and> probit_distribution E c n = (Inr dc, n') \<and> Mvn_correlate E dc w' = Inr g
          \<longrightarrow> xi_slice_fn E w' c n
                = and_then (log_marg_like E g (self_gamma0 n') (self_lamb n') (self_nu n'))
                    (\<lambda>l. and_then (xi_logpdf E c) (\<lambda>lx n''. (Inr (fadd l lx), n''))) n')
    \<and> update_xi E m =
           (case probit_distribution E x (m2\<lparr>self_xi := x\<rparr>) of
              (Inl e, m3) \<Rightarrow> (Inl e, m3)
            | (Inr dx, m3) \<Rightarrow>
                (case Mvn_correlate E dx w of
                   Inl e \<Rightarrow> (Inl e, m3)
                 | Inr g \<Rightarrow> (Inr (), m3\<lparr>self_gamma := g\<rparr>)))
    \<and> (\<forall>c n dc n'. Cache_getitem (self_probit_cache n) (cache_key (hashes E) [ArgFloat c]) = None
          \<and> probit_distribution E c n = (Inr dc, n')
          \<longrightarrow> (\<exists>cov. probit_cov E n c = Inr cov \<and> Mvn_new E cov None None = Inr dc))
    \<and> (\<forall>c c' n0 n dc. probit_distribution E c' n0 = (Inr dc, n)
          \<and> 0 < maxsize (self_probit_cache n0)
          \<and> py_hash_float (hashes E) c = py_hash_float (hashes E) c'
          \<longrightarrow> probit_distribution E c n = (Inr dc, n))"
proof -
  have 1: "\<forall>c w' n. fle c (Fin 0) \<or> fge c (Fin 1) \<longrightarrow> xi_slice_fn E w' c n = (Inr NInf, n)"
    by (simp add: xi_slice_fn_def)
  have 2: "\<forall>c. (fle c (Fin 0) \<or> fge c (Fin 1))
          = (c = NInf \<or> c = PInf \<or> (\<exists>v. c = Fin v \<and> (v \<le> 0 \<or> 1 \<le> v)))"
    by (intro allI) (rule xi_guard)
  have 3: "\<forall>c w' n e n'. \<not> (fle c (Fin 0) \<or> fge c (Fin 1))
          \<and> probit_distribution E c n = (Inl e, n')
          \<longrightarrow> xi_slice_fn E w' c n
                = (if e = LinAlgError then (Inr NInf, n') else (Inl e, n'))"
    by (intro allI impI) (elim conjE, rule xi_slice_fn_no_distribution)
  have 4: "\<forall>c w' n dc e n'. \<not> (fle c (Fin 0) \<or> fge c (Fin 1))
          \<and> probit_distribution E c n = (Inr dc, n') \<and> Mvn_correlate E dc w' = Inl e
          \<longrightarrow> xi_slice_fn E w' c n
                = (if e = LinAlgError then (Inr NInf, n') else (Inl e, n'))"
    by (intro allI impI) (elim conjE, rule xi_slice_fn_no_correlate)
  have 5: "\<forall>c w' n dc g n'. \<not> (fle c (Fin 0) \<or> fge c (Fin 1))
          \<and> probit_distribution E c n = (Inr dc, n') \<and> Mvn_correlate E dc w' = Inr g
          \<longrightarrow> xi_slice_fn E w' c n
                = and_then (log_marg_like E g (self_gamma0 n') (self_lamb n') (self_nu n'))
                    (\<lambda>l. and_then (xi_logpdf E c) (\<lambda>lx n''. (Inr (fadd l lx), n''))) n'"
    by (intro allI impI) (elim conjE, rule xi_slice_fn_correlated)
  note 6 = update_xi_result[OF assms]
  have 7: "\<forall>c n dc n'. Cache_getitem (self_probit_cache n) (cache_key (hashes E) [ArgFloat c]) = None
          \<and> probit_distribution E c n = (Inr dc, n')
          \<longrightarrow> (\<exists>cov. probit_cov E n c = Inr cov \<and> Mvn_new E cov None None = Inr dc)"
    by (intro allI impI) (elim conjE, rule probit_distribution_miss_cov)
  have 8: "\<forall>c c' n0 n dc. probit_distribution E c' n0 = (Inr dc, n)
          \<and> 0 < maxsize (self_probit_cache n0)
          \<and> py_hash_float (hashes E) c = py_hash_float (hashes E) c'
          \<longrightarrow> probit_distribution E c n = (Inr dc, n)"
    by (intro allI impI) (elim conjE, rule probit_distribution_stale)
  from 1 2 3 4 5 6 7 8 show ?thesis by (intro conjI)
qed

lemma py_hash_int_more: "py_hash_int 2 = 2" "py_hash_int 3 = 3"
  by (simp_all add: py_hash_int_def)

lemmas xi_defs = py_hash_int_more example_env_xi_def example_env_xi_far_def example_hashing_floats_def
  example_whiten_def example_correlate_def example_object_xi_def example_object_sampled_def
  example_object_def

lemma example_xi_run:
  "probit_distribution example_env_xi (self_xi example_object_xi) example_object_xi
     = (Inr [[Fin (3 / 2)]], example_object_xi)"
  "Mvn_whiten example_env_xi [[Fin (3 / 2)]] (self_gamma example_object_xi)
     = Inr (example_array 0 [Fin 2])"
  "run_prog (xi_slice_fn example_env_xi (example_array 0 [Fin 2]))
      (SliceSampler_one example_env_xi (self_xi example_object_xi)) example_object_xi
     = (Inr (Fin (1 / 4)),
        example_object_xi\<lparr>
          self_probit_cache := \<lparr>maxsize = 4,
            items = [(2 ^ 60, [[Fin (3 / 2)]]), (2 ^ 59, [[Fin (5 / 4)]])]\<rparr>,
          self_ppi_cache := \<lparr>maxsize = 8, items = [(11, [[Fin 3]]), (10, [[Fin 3]])]\<rparr>,
          np_random := 2\<rparr>)"
  by (simp_all add: xi_defs example_defs init_defs run_defs xi_slice_fn_def recorrelate_def
      xi_logpdf_def py_hash_int_small)

lemma example_xi_far_run:
  "probit_distribution example_env_xi_far (self_xi example_object_xi) example_object_xi
     = (Inr [[Fin (3 / 2)]], example_object_xi)"
  "Mvn_whiten example_env_xi_far [[Fin (3 / 2)]] (self_gamma example_object_xi)
     = Inr (example_array 0 [Fin 2])"
  "run_prog (xi_slice_fn example_env_xi_far (example_array 0 [Fin 2]))
      (SliceSampler_one example_env_xi_far (self_xi example_object_xi)) example_object_xi
     = (Inr (Fin (1 / 2 ^ 62)),
        example_object_xi\<lparr>
          self_ppi_cache := \<lparr>maxsize = 8, items = [(11, [[Fin 3]])]\<rparr>\<rparr>)"
  by (simp_all add: xi_defs example_defs init_defs run_defs xi_slice_fn_def recorrelate_def
      xi_logpdf_def py_hash_int_small)

theorem C6_update_xi_stale_distribution_witness:
  "update_xi example_env_xi example_object_xi
     = (Inr (), example_object_xi\<lparr>
          self_probit_cache := \<lparr>maxsize = 4,
            items = [(2 ^ 60, [[Fin (3 / 2)]]), (2 ^ 59, [[Fin (5 / 4)]])]\<rparr>,
          self_ppi_cache := \<lparr>maxsize = 8, items = [(11, [[Fin 3]]), (10, [[Fin 3]])]\<rparr>,
          np_random := 2, self_xi := Fin (1 / 4), self_gamma := example_array 0 [Fin (5 / 2)]\<rparr>)
   \<and> update_xi example_env_xi_far example_object_xi
     = (Inr (), example_object_xi\<lparr>
          self_ppi_cache := \<lparr>maxsize = 8, items = [(11, [[Fin 3]])]\<rparr>,
          self_xi := Fin (1 / 2 ^ 62), self_gamma := example_array 0 [Fin 3]\<rparr>)
   \<and> probit_cov example_env_xi_far example_object_xi (Fin (1 / 2 ^ 62))
     = Inr [[Fin (1 + 1 / 2 ^ 62)]]
   \<and> Mvn_correlate example_env_xi_far [[Fin (1 + 1 / 2 ^ 62)]] (example_array 0 [Fin 2])
     = Inr (example_array 0 [Fin (2 + 1 / 2 ^ 61)])
   \<and> xi_slice_fn example_env_xi (example_array 0 [Fin 2]) (Fin (3 / 2)) example_object_xi
     = (Inr NInf, example_object_xi)
   \<and> xi_slice_fn example_env_xi (example_array 0 []) (Fin (1 / 2)) example_object_xi
     = (Inr NInf, example_object_xi)"
proof -
  note t = C6_update_xi_stale_distribution[OF example_xi_run]
  note u = C6_update_xi_stale_distribution[OF example_xi_far_run]
  have 1: "update_xi example_env_xi example_object_xi
     = (Inr (), example_object_xi\<lparr>
          self_probit_cache := \<lparr>maxsize = 4,
            items = [(2 ^ 60, [[Fin (3 / 2)]]), (2 ^ 59, [[Fin (5 / 4)]])]\<rparr>,
          self_ppi_cache := \<lparr>maxsize = 8, items = [(11, [[Fin 3]]), (10, [[Fin 3]])]\<rparr>,
          np_random := 2, self_xi := Fin (1 / 4), self_gamma := example_array 0 [Fin (5 / 2)]\<rparr>)"
    using t[THEN conjunct2, THEN conjunct2, THEN conjunct2, THEN conjunct2, THEN conjunct2,
        THEN conjunct1]
    by (simp add: xi_defs example_defs init_defs py_hash_int_small)
  have 2: "update_xi example_env_xi_far example_object_xi
     = (Inr (), example_object_xi\<lparr>
          self_ppi_cache := \<lparr>maxsize = 8, items = [(11, [[Fin 3]])]\<rparr>,
          self_xi := Fin (1 / 2 ^ 62), self_gamma := example_array 0 [Fin 3]\<rparr>)"
    using u[THEN conjunct2, THEN conjunct2, THEN conjunct2, THEN conjunct2, THEN conjunct2,
        THEN conjunct1]
    by (simp add: xi_defs example_defs init_defs py_hash_int_small)
  have 3: "probit_cov example_env_xi_far example_object_xi (Fin (1 / 2 ^ 62))
     = Inr [[Fin (1 + 1 / 2 ^ 62)]]"
    by (simp add: xi_defs example_defs init_defs)
  have 4: "Mvn_correlate example_env_xi_far [[Fin (1 + 1 / 2 ^ 62)]] (example_array 0 [Fin 2])
     = Inr (example_array 0 [Fin (2 + 1 / 2 ^ 61)])"
    by (simp add: xi_defs example_defs)
  have "fle (Fin (3 / 2)) (Fin 0) \<or> fge (Fin (3 / 2)) (Fin 1)" by (simp add: fge_def)
  from t[THEN conjunct1, rule_format, OF this]
  have 5: "xi_slice_fn example_env_xi (example_array 0 [Fin 2]) (Fin (3 / 2)) example_object_xi
     = (Inr NInf, example_object_xi)" .
  have l: "\<not> (fle (Fin (1 / 2)) (Fin 0) \<or> fge (Fin (1 / 2)) (Fin 1))
     \<and> probit_distribution example_env_xi (Fin (1 / 2)) example_object_xi
         = (Inr [[Fin (3 / 2)]], example_object_xi)
     \<and> Mvn_correlate example_env_xi [[Fin (3 / 2)]] (example_array 0 []) = Inl LinAlgError"
    by (simp add: xi_defs example_defs init_defs fge_def py_hash_int_small)
  from t[THEN conjunct2, THEN conjunct2, THEN conjunct2, THEN conjunct1, rule_format, OF l]
  have 6: "xi_slice_fn example_env_xi (example_array 0 []) (Fin (1 / 2)) example_object_xi
     = (Inr NInf, example_object_xi)" by simp
  from 1 2 3 4 5 6 show ?thesis by (intro conjI)
qed

subsection \<open>The joint log-density of a sweep and its vector\<close>

lemma observe_success:
  assumes "observe E m = (Inr ob, m1)"
  shows "fst (log_joint E m) = Inr (joint_before ob)" "after ob = m1"
    "\<exists>s. caches_only m s \<and> update_parameters E s = (Inr (), m1)"
proof -
  from assms obtain lj ma where
    a: "log_joint E m = (Inr lj, ma)"
    and r1: "and_then
           (\<lambda>m. log_marg_like E (self_gamma m) (self_gamma0 m) (self_lamb m) (self_nu m) m)
         (\<lambda>ll. and_then (update_parameters E)
           (\<lambda>_ m. (Inr \<lparr>joint_before = lj, like_before = ll, after = m\<rparr>, m))) ma
         = (Inr ob, m1)"
    unfolding observe_def by (rule and_then_Inr)
  from r1 obtain ll mb where
    b: "log_marg_like E (self_gamma ma) (self_gamma0 ma) (self_lamb ma) (self_nu ma) ma
          = (Inr ll, mb)"
    and r2: "and_then (update_parameters E)
           (\<lambda>_ m. (Inr \<lparr>joint_before = lj, like_before = ll, after = m\<rparr>, m)) mb
         = (Inr ob, m1)"
    by (rule and_then_Inr)
  from r2 have c: "update_parameters E mb = (Inr (), m1)"
    and ob: "ob = \<lparr>joint_before = lj, like_before = ll, after = m1\<rparr>"
    by (auto simp: and_then_def split: prod.splits sum.splits)
  show "fst (log_joint E m) = Inr (joint_before ob)" using a ob by simp
  show "after ob = m1" using ob by simp
  have "caches_only m ma" using log_joint_caches_only[of m E] a by simp
  moreover have "caches_only ma mb"
    using log_marg_like_caches_only[of ma E "self_gamma ma" "self_gamma0 ma" "self_lamb ma"
        "self_nu ma"] b by simp
  ultimately have "caches_only m mb" by (rule caches_only_trans)
  with c show "\<exists>s. caches_only m s \<and> update_parameters E s = (Inr (), m1)" by auto
qed

lemma chain_state_before:
  assumes "chain E n m = (Inr obs, m')" "i < n"
  shows "fst (log_joint E (state_before m obs i)) = Inr (joint_before (obs ! i))
     \<and> (\<exists>s. caches_only (state_before m obs i) s
           \<and> update_parameters E s = (Inr (), after (obs ! i)))"
  using assms
proof (induction n arbitrary: m obs i)
  case 0 then show ?case by simp
next
  case (Suc n)
  from Suc.prems(1) obtain ob m1 rest where
    o: "observe E m = (Inr ob, m1)" and c: "chain E n m1 = (Inr rest, m')"
    and obs: "obs = ob # rest" by (rule chain_Suc_success)
  note s = observe_success[OF o]
  show ?case
  proof (cases i)
    case 0
    with s obs show ?thesis by (simp add: state_before_def)
  next
    case (Suc j)
    with Suc.prems(2) have j: "j < n" by simp
    have "state_before m obs i = state_before m1 rest j"
      using Suc obs s(2) by (cases j) (simp_all add: state_before_def)
    with Suc.IH[OF c j] Suc obs show ?thesis by simp
  qed
qed

lemma no_kept_sweep:
  assumes "0 \<le> burn_in" "chain E (nat burn_in) m = (Inr obs, m')"
  shows "run_mcmc E 0 burn_in True m = (Inl ValueError, m')"
proof -
  define t0 where "t0 = \<lparr>logjoint_trace = [], inclusion_trace = [], gamma0_trace = [],
    lambda_trace = [], nu_trace = [], xi_trace = [], loglike_trace = []\<rparr>"
  have n: "new_traces True 0 (self_P m) = Inr t0"
    by (simp add: new_traces_def np_zeros_def t0_def)
  have b: "mcmc_loop E True [- burn_in..- 1] t0 m = (Inr t0, m')"
    using burn_in_indices[OF assms(1)] assms(2) by (simp add: burn_in_loop)
  have r: "mcmc_result_of True (self_P m') t0 = Inl ValueError"
    by (simp add: mcmc_result_of_def np_argmax_def t0_def)
  show ?thesis using n b r by (simp add: run_mcmc_def and_then_def)
qed

text \<open>
  C7. For counts iters and burn_in, when the burn_in + iters sweeps raise nothing,
  \<open>run_mcmc\<close> makes exactly these sweeps, one after the other, and keeps the last iters
  of them. In non-detailed mode it returns the iters joint log-densities, and in detailed
  mode, with at least one kept sweep and every kept gamma of P entries, the traces of
  the kept sweeps. The joint log-density recorded for a sweep is taken before the sweep,
  from the state the sweep starts from; the parameters and the inclusion vector recorded
  with it are those after the sweep. The inclusion entry is the pair of the column means
  of the recorded vectors and the recorded vector at \<open>np.argmax\<close> of the joint trace, an
  index whose joint log-density is the greatest when no entry is NaN: it is the vector
  one sweep after the state with the highest recorded joint log-density, not the vector
  of that state. In detailed mode with iters = 0, \<open>run_mcmc\<close> raises after the burn-in
  sweeps.
\<close>

theorem C7_run_mcmc_joint_before_vector_after:
  assumes "0 \<le> iters" "0 \<le> burn_in"
    and "chain E (nat burn_in + nat iters) m = (Inr obs, m')"
    and "detailed \<longrightarrow> 0 < iters \<and> list_all full_gamma (drop (nat burn_in) obs)"
  shows "length (drop (nat burn_in) obs) = nat iters
    \<and> run_mcmc E iters burn_in detailed m
        = (Inr (run_result detailed (self_P m') (drop (nat burn_in) obs)), m')
    \<and> (\<forall>i < nat burn_in + nat iters.
          fst (log_joint E (state_before m obs i)) = Inr (joint_before (obs ! i))
          \<and> (\<exists>s. caches_only (state_before m obs i) s
                \<and> update_parameters E s = (Inr (), after (obs ! i))))
    \<and> (0 < iters \<and> list_all (\<lambda>ob. joint_before ob \<noteq> NaN) (drop (nat burn_in) obs)
         \<longrightarrow> map_index (drop (nat burn_in) obs) < nat iters
           \<and> (\<forall>j<nat iters.
                  fle (joint_before (drop (nat burn_in) obs ! j))
                      (joint_before (drop (nat burn_in) obs ! map_index (drop (nat burn_in) obs)))))
    \<and> (\<forall>obs0 m0. chain E (nat burn_in) m = (Inr obs0, m0)
          \<longrightarrow> run_mcmc E 0 burn_in True m = (Inl ValueError, m0))"
proof -
  define kept where "kept = drop (nat burn_in) obs"
  from chain_add[OF assms(3)] obtain m1 where
    c1: "chain E (nat burn_in) m = (Inr (take (nat burn_in) obs), m1)"
    and c2: "chain E (nat iters) m1 = (Inr kept, m')"
    unfolding kept_def by blast
  have len: "length kept = nat iters" by (rule chain_length[OF c2])
  from new_traces_room[OF assms(1)] obtain t0 where
    t0: "new_traces detailed iters (self_P m) = Inr t0" "room detailed (nat iters) t0"
      "length (logjoint_trace t0) = nat iters"
      "detailed \<longrightarrow> length (inclusion_trace t0) = nat iters
            \<and> length (gamma0_trace t0) = nat iters \<and> length (lambda_trace t0) = nat iters
            \<and> length (nu_trace t0) = nat iters \<and> length (xi_trace t0) = nat iters
            \<and> length (loglike_trace t0) = nat iters"
    by blast
  have b: "mcmc_loop E detailed [- burn_in..- 1] t0 m = (Inr t0, m1)"
    using burn_in_indices[OF assms(2)] c1
    by (simp add: burn_in_loop)
  have k: "mcmc_loop E detailed [int 0..int 0 + int (nat iters) - 1] t0 m1
        = (Inr (recorded detailed 0 kept t0), m')"
    by (rule kept_loop[OF c2]) (use t0(2) assms(4) in \<open>simp_all add: kept_def\<close>)
  have loop: "mcmc_loop E detailed [- burn_in..iters - 1] t0 m
        = (Inr (recorded detailed 0 kept t0), m')"
    by (simp only: range_split[OF assms(1,2)] mcmc_loop_append b k prod.case sum.case)
  have res: "mcmc_result_of detailed (self_P m') (recorded detailed 0 kept t0)
        = Inr (run_result detailed (self_P m') kept)"
    by (rule result_of_recorded[OF len t0(3)]) (use t0(4) assms(1,4) in auto)
  have run: "run_mcmc E iters burn_in detailed m
        = (Inr (run_result detailed (self_P m') kept), m')"
    by (simp add: run_mcmc_def t0(1) and_then_def loop res)
  have before: "\<forall>i < nat burn_in + nat iters.
          fst (log_joint E (state_before m obs i)) = Inr (joint_before (obs ! i))
          \<and> (\<exists>s. caches_only (state_before m obs i) s
                \<and> update_parameters E s = (Inr (), after (obs ! i)))"
    by (intro allI impI) (rule chain_state_before[OF assms(3)])
  have best: "0 < iters \<and> list_all (\<lambda>ob. joint_before ob \<noteq> NaN) kept
         \<longrightarrow> map_index kept < nat iters
           \<and> (\<forall>j<nat iters. fle (joint_before (kept ! j)) (joint_before (kept ! map_index kept)))"
  proof (intro impI, elim conjE)
    assume i: "0 < iters" and n: "list_all (\<lambda>ob. joint_before ob \<noteq> NaN) kept"
    have ne: "map joint_before kept \<noteq> []" using len i by auto
    have nn: "list_all (\<lambda>x. x \<noteq> NaN) (map joint_before kept)"
      using n by (simp add: list_all_iff)
    from np_argmax_greatest[OF ne nn] obtain k where
      "k < length kept" "np_argmax (map joint_before kept) = Inr k"
      "\<forall>j<length kept. fle (map joint_before kept ! j) (map joint_before kept ! k)"
      by auto
    then show "map_index kept < nat iters
           \<and> (\<forall>j<nat iters. fle (joint_before (kept ! j)) (joint_before (kept ! map_index kept)))"
      using len by (simp add: map_index_def)
  qed
  have none: "\<forall>obs0 m0. chain E (nat burn_in) m = (Inr obs0, m0)
          \<longrightarrow> run_mcmc E 0 burn_in True m = (Inl ValueError, m0)"
    by (intro allI impI) (rule no_kept_sweep[OF assms(2)])
  from len run before best none show ?thesis unfolding kept_def by (intro conjI)
qed

lemma example_zero_init:
  "Probit_init example_env_flip (example_args\<lparr>target_sparsity := Fin (1 / 2)\<rparr>) 0
     = (Inr example_object_zero, 1)"
  by (simp add: example_env_flip_def example_defs init_defs example_object_def
      example_object_zero_def)

lemmas flip_defs = example_env_flip_def example_flip_def example_object_zero_def
  example_object_zero_1_def example_object_zero_2_def example_object_def

lemma example_zero_observe_1: "observe example_env_flip example_object_zero
   = (Inr \<lparr>joint_before = Fin (- 3), like_before = Fin (- 2), after = example_object_zero_1\<rparr>,
      example_object_zero_1)"
  by (simp add: flip_defs example_defs init_defs run_defs obs_defs py_hash_int_small)

lemma example_zero_observe_2: "observe example_env_flip example_object_zero_1
   = (Inr \<lparr>joint_before = Fin (- 4), like_before = Fin (- 3), after = example_object_zero_2\<rparr>,
      example_object_zero_2)"
  by (simp add: flip_defs example_defs init_defs run_defs obs_defs py_hash_int_small)

lemma example_zero_chain:
  "chain example_env_flip (nat 0 + nat 2) example_object_zero
     = (Inr [\<lparr>joint_before = Fin (- 3), like_before = Fin (- 2), after = example_object_zero_1\<rparr>,
             \<lparr>joint_before = Fin (- 4), like_before = Fin (- 3), after = example_object_zero_2\<rparr>],
        example_object_zero_2)"
  by (simp add: eval_nat_numeral and_then_def example_zero_observe_1 example_zero_observe_2)

lemma example_zero_burn_in:
  "chain example_env_flip (nat 1) example_object_zero
     = (Inr [\<lparr>joint_before = Fin (- 3), like_before = Fin (- 2), after = example_object_zero_1\<rparr>],
        example_object_zero_1)"
  by (simp add: and_then_def example_zero_observe_1)

theorem C7_run_mcmc_joint_before_vector_after_witness:
  "run_mcmc example_env_flip 2 0 True example_object_zero
     = (Inr (Detailed
          \<lparr>inclusion = ([Fin (1 / 2)], [True]),
           res_gamma0 = [Fin 0, Fin 0], res_lambda = [Fin 1, Fin (1 / 2)],
           res_nu = [Fin 1, Fin 1],
           res_xi = [Fin (999999 / 1000000), Fin (999999 / 1000000)],
           joint = [Fin (- 3), Fin (- 4)], likelihood = [Fin (- 2), Fin (- 3)]\<rparr>),
        example_object_zero_2)
   \<and> fst (log_joint example_env_flip example_object_zero) = Inr (Fin (- 3))
   \<and> inclusion_of example_object_zero = [False]
   \<and> spec_map_vector example_object_zero
        [\<lparr>joint_before = Fin (- 3), like_before = Fin (- 2), after = example_object_zero_1\<rparr>,
         \<lparr>joint_before = Fin (- 4), like_before = Fin (- 3), after = example_object_zero_2\<rparr>]
        0 = [False]
   \<and> run_mcmc example_env_flip 0 1 True example_object_zero
     = (Inl ValueError, example_object_zero_1)"
proof -
  have h: "True \<longrightarrow> 0 < (2::int) \<and>
      list_all full_gamma (drop (nat 0)
        [\<lparr>joint_before = Fin (- 3), like_before = Fin (- 2), after = example_object_zero_1\<rparr>,
         \<lparr>joint_before = Fin (- 4), like_before = Fin (- 3), after = example_object_zero_2\<rparr>])"
    by (simp add: full_gamma_def flip_defs example_array_def)
  note t = C7_run_mcmc_joint_before_vector_after[OF _ _ example_zero_chain h]
  have 1: "run_mcmc example_env_flip 2 0 True example_object_zero
     = (Inr (Detailed
          \<lparr>inclusion = ([Fin (1 / 2)], [True]),
           res_gamma0 = [Fin 0, Fin 0], res_lambda = [Fin 1, Fin (1 / 2)],
           res_nu = [Fin 1, Fin 1],
           res_xi = [Fin (999999 / 1000000), Fin (999999 / 1000000)],
           joint = [Fin (- 3), Fin (- 4)], likelihood = [Fin (- 2), Fin (- 3)]\<rparr>),
        example_object_zero_2)"
    using t[THEN conjunct2, THEN conjunct1]
    by (simp add: run_result_def detailed_of_def map_index_def np_argmax_def column_means_def
        inclusion_of_def fgt_def flip_defs example_array_def)
  have 2: "fst (log_joint example_env_flip example_object_zero) = Inr (Fin (- 3))"
    using t[THEN conjunct2, THEN conjunct2, THEN conjunct1, rule_format, of 0]
    by (simp add: state_before_def)
  have 3: "inclusion_of example_object_zero = [False]"
    by (simp add: inclusion_of_def fgt_def flip_defs example_array_def)
  have 4: "spec_map_vector example_object_zero
        [\<lparr>joint_before = Fin (- 3), like_before = Fin (- 2), after = example_object_zero_1\<rparr>,
         \<lparr>joint_before = Fin (- 4), like_before = Fin (- 3), after = example_object_zero_2\<rparr>]
        0 = [False]"
    by (simp add: spec_map_vector_def state_before_def map_index_def np_argmax_def 3)
  have 5: "run_mcmc example_env_flip 0 1 True example_object_zero
     = (Inl ValueError, example_object_zero_1)"
  proof -
    have c: "chain example_env_flip (nat 1 + nat 0) example_object_zero
     = (Inr [\<lparr>joint_before = Fin (- 3), like_before = Fin (- 2), after = example_object_zero_1\<rparr>],
        example_object_zero_1)"
      using example_zero_burn_in by simp
    have f: "False \<longrightarrow> 0 < (0::int) \<and> list_all full_gamma (drop (nat 1)
        [\<lparr>joint_before = Fin (- 3), like_before = Fin (- 2), after = example_object_zero_1\<rparr>])"
      by simp
    have z: "(0::int) \<le> 0" "(0::int) \<le> 1" by simp_all
    from C7_run_mcmc_joint_before_vector_after[OF z c f, THEN conjunct2, THEN conjunct2,
        THEN conjunct2, THEN conjunct2, rule_format, OF example_zero_burn_in]
    show ?thesis .
  qed
  from 1 2 3 4 5 show ?thesis by (intro conjI)
qed

subsection \<open>What a sampler returns\<close>




subsection \<open>A call with lambda = 0\<close>























subsection \<open>The invariant through the updates\<close>





















subsection \<open>The cache through the updates\<close>







subsection \<open>The invariant through a sweep\<close>





subsection \<open>The invariant after construction\<close>







subsection \<open>The small instance meets the contracts\<close>













end
